theory Spec2Isabelle
  imports Complex_Main
begin

section \<open>Python values, errors and dates\<close>

text \<open>
  Exceptions of the source are values: every function that can raise returns
  \<open>py_error + 'a\<close>, with \<open>Inl\<close> the exception.  Python floats are modelled by exact
  rationals (rounding of float arithmetic is abstracted; non-finite floats are
  modelled only where the source parses user text, see \<open>pyfloat\<close>).
\<close>

datatype py_error =
    ValueError string
  | TypeError
  | OverflowError
  | IntegrityError
  | AttributeError

datatype pyval = PNone | PBool bool | PInt int | PFloat rat | PStr string

text \<open>The numeric reading of a Python value in arithmetic and ordering
  (\<open>bool\<close> is a subclass of \<open>int\<close>); anything else raises TypeError.\<close>

fun num_of :: "pyval \<Rightarrow> py_error + rat" where
  "num_of (PInt i) = Inr (of_int i)"
| "num_of (PFloat r) = Inr r"
| "num_of (PBool b) = Inr (if b then 1 else 0)"
| "num_of PNone = Inl TypeError"
| "num_of (PStr s) = Inl TypeError"

text \<open>\<open>datetime.time\<close>: compared field by field, as Python compares naive times.\<close>

record pytime =
  hour :: nat
  minute :: nat
  second :: nat
  microsecond :: nat

definition time_le :: "pytime \<Rightarrow> pytime \<Rightarrow> bool" where
  "time_le a b \<longleftrightarrow>
     hour a < hour b \<or> (hour a = hour b \<and>
      (minute a < minute b \<or> (minute a = minute b \<and>
        (second a < second b \<or> (second a = second b \<and> microsecond a \<le> microsecond b)))))"

text \<open>What \<open>time.fromisoformat\<close> returns: a naive time, or an aware one when the text
  carries a UTC offset.  Ordering a naive time against an aware one raises TypeError.\<close>

datatype parsed_time = NaiveTime pytime | AwareTime pytime

definition time_min :: pytime where
  "time_min = \<lparr>hour = 0, minute = 0, second = 0, microsecond = 0\<rparr>"

definition time_max :: pytime where
  "time_max = \<lparr>hour = 23, minute = 59, second = 59, microsecond = 999999\<rparr>"

text \<open>\<open>datetime.datetime\<close> (naive): a calendar date and a time of day.\<close>

record datetime =
  year :: nat
  month :: nat
  day :: nat
  tod :: pytime

definition datetime_le :: "datetime \<Rightarrow> datetime \<Rightarrow> bool" where
  "datetime_le a b \<longleftrightarrow>
     year a < year b \<or> (year a = year b \<and>
      (month a < month b \<or> (month a = month b \<and>
        (day a < day b \<or> (day a = day b \<and> time_le (tod a) (tod b))))))"

definition is_leap :: "nat \<Rightarrow> bool" where
  "is_leap y \<longleftrightarrow> y mod 4 = 0 \<and> (y mod 100 \<noteq> 0 \<or> y mod 400 = 0)"

definition days_in_month :: "nat \<Rightarrow> nat \<Rightarrow> nat" where
  "days_in_month y m =
     (if m = 2 then (if is_leap y then 29 else 28)
      else if m = 4 \<or> m = 6 \<or> m = 9 \<or> m = 11 then 30 else 31)"

definition days_before_year :: "nat \<Rightarrow> nat" where
  "days_before_year y = (y - 1) * 365 + (y - 1) div 4 - (y - 1) div 100 + (y - 1) div 400"

definition days_before_month :: "nat \<Rightarrow> nat \<Rightarrow> nat" where
  "days_before_month y m = (\<Sum>k \<leftarrow> [1..<m]. days_in_month y k)"

definition toordinal :: "datetime \<Rightarrow> nat" where
  "toordinal d = days_before_year (year d) + days_before_month (year d) (month d) + day d"

text \<open>\<open>datetime.weekday()\<close>: Monday is 0 and Sunday is 6.\<close>

definition weekday :: "datetime \<Rightarrow> nat" where
  "weekday d = (toordinal d + 6) mod 7"

definition valid_date :: "datetime \<Rightarrow> bool" where
  "valid_date d \<longleftrightarrow>
     1 \<le> year d \<and> year d \<le> 9999 \<and> 1 \<le> month d \<and> month d \<le> 12 \<and>
     1 \<le> day d \<and> day d \<le> days_in_month (year d) (month d)"

text \<open>The day after and the day before, on the proleptic Gregorian calendar.\<close>

definition next_day :: "datetime \<Rightarrow> datetime" where
  "next_day d =
     (if day d < days_in_month (year d) (month d) then d\<lparr>day := day d + 1\<rparr>
      else if month d < 12 then d\<lparr>month := month d + 1, day := 1\<rparr>
      else d\<lparr>year := year d + 1, month := 1, day := 1\<rparr>)"

definition prev_day :: "datetime \<Rightarrow> datetime" where
  "prev_day d =
     (if 1 < day d then d\<lparr>day := day d - 1\<rparr>
      else if 1 < month d
        then d\<lparr>month := month d - 1, day := days_in_month (year d) (month d - 1)\<rparr>
      else d\<lparr>year := year d - 1, month := 12, day := 31\<rparr>)"

text \<open>\<open>d + timedelta(days=n)\<close> and \<open>d - timedelta(days=n)\<close>: OverflowError when the
  result leaves the years 1..9999.\<close>

definition add_days :: "nat \<Rightarrow> datetime \<Rightarrow> py_error + datetime" where
  "add_days n d =
     (let r = (next_day ^^ n) d in if year r \<le> 9999 then Inr r else Inl OverflowError)"

definition sub_days :: "nat \<Rightarrow> datetime \<Rightarrow> py_error + datetime" where
  "sub_days n d =
     (let r = (prev_day ^^ n) d in if 1 \<le> year r then Inr r else Inl OverflowError)"

text \<open>\<open>d.replace(year=y, month=m)\<close>: ValueError when the new date does not exist.\<close>

definition replace_ym :: "datetime \<Rightarrow> nat \<Rightarrow> nat \<Rightarrow> py_error + datetime" where
  "replace_ym d y m =
     (let r = d\<lparr>year := y, month := m\<rparr>
      in if valid_date r then Inr r else Inl (ValueError ''day is out of range for month''))"

text \<open>The three clocks the source reads: \<open>datetime.now()\<close>, \<open>datetime.utcnow()\<close> and
  the database server's \<open>now()\<close> used for column defaults.\<close>

record clock =
  now :: datetime
  utcnow :: datetime
  db_now :: datetime

text \<open>Built-in formatting that the model does not compute: \<open>str()\<close> of a datetime and
  of a value, and the format specification \<open>.1%\<close>.\<close>

record pyfmt =
  str_datetime :: "datetime \<Rightarrow> string"
  str_val :: "pyval \<Rightarrow> string"
  fmt_pct :: "rat \<Rightarrow> string"

fun digits :: "nat \<Rightarrow> string" where
  "digits n = (if n < 10 then [char_of (48 + n)] else digits (n div 10) @ [char_of (48 + n mod 10)])"

definition str_int :: "int \<Rightarrow> string" where
  "str_int i = (if i < 0 then CHR ''-'' # digits (nat (- i)) else digits (nat i))"

section \<open>Data model (app/models)\<close>

datatype conversation_state =
    INITIATED | IDENTITY_VERIFICATION | ACTIVE_NEGOTIATION | PAYMENT_PROCESSING
  | ESCALATED | CLOSED | OPTED_OUT

datatype message_type = USER | ASSISTANT | SYSTEM

datatype payment_plan_type = FULL_PAYMENT | PPT_INSTALLMENT | PPT_SETTLEMENT

text \<open>Rows of the tables, with the columns the modelled functions read or write.
  Column names shared by several tables carry the table's initial.\<close>

record borrower =
  b_id :: int
  ssn_last_four :: "string option"
  opt_out_date :: "datetime option"

record loan =
  l_id :: int
  l_borrower_id :: int
  current_balance :: rat
  last_payment_amount :: "rat option"

record conversation =
  c_id :: int
  conversation_id :: string
  c_borrower_id :: int
  c_loan_id :: int
  state :: conversation_state
  channel :: string
  identity_verified :: bool
  verification_attempts :: int
  last_activity :: datetime
  escalation_reason :: "string option"
  escalation_date :: "datetime option"
  c_created_at :: datetime

record compliance_check =
  check_name :: string
  passed :: bool
  details :: "string option"
  severity :: string

text \<open>The pydantic constructor: \<open>severity\<close> defaults to \<open>"info"\<close>.\<close>

definition ComplianceCheck :: "string \<Rightarrow> bool \<Rightarrow> string \<Rightarrow> compliance_check" where
  "ComplianceCheck n p d = \<lparr>check_name = n, passed = p, details = Some d, severity = ''info''\<rparr>"

definition ComplianceCheckSev :: "string \<Rightarrow> bool \<Rightarrow> string \<Rightarrow> string \<Rightarrow> compliance_check" where
  "ComplianceCheckSev n p d s = \<lparr>check_name = n, passed = p, details = Some d, severity = s\<rparr>"

section \<open>ComplianceService (app/services/compliance\_service.py)\<close>

record compliance_service =
  max_settlement_percentage :: rat
  max_installment_months :: int
  contact_hours_start :: string
  contact_hours_end :: string
  max_daily_contact_attempts :: int
  max_weekly_contact_attempts :: int
  prohibited_days :: "nat list"

text \<open>\<open>ComplianceService.__init__\<close> with no environment variable set.\<close>

definition default_compliance_service :: compliance_service where
  "default_compliance_service =
     \<lparr>max_settlement_percentage = 7 / 10,
      max_installment_months = 12,
      contact_hours_start = ''08:00'',
      contact_hours_end = ''21:00'',
      max_daily_contact_attempts = 3,
      max_weekly_contact_attempts = 7,
      prohibited_days = [6]\<rparr>"

definition check_opt_out_status :: "pyfmt \<Rightarrow> borrower \<Rightarrow> compliance_check" where
  "check_opt_out_status fmt b =
     (case opt_out_date b of
        Some d \<Rightarrow> ComplianceCheckSev ''opt_out_status'' False
                    (''Borrower opted out on '' @ str_datetime fmt d) ''critical''
      | None \<Rightarrow> ComplianceCheck ''opt_out_status'' True ''Borrower has not opted out'')"

text \<open>\<open>time.fromisoformat\<close> is the parameter \<open>fromiso\<close>: \<open>None\<close> is its ValueError.
  The start is parsed before the end, and either failure leaves the \<open>try\<close> block for
  the final \<open>return\<close>.  The chained comparison \<open>start_time <= current_time <= end_time\<close>
  compares the start first and the end only when the start is not after the clock; a
  setting that is compared and is aware raises TypeError, which the \<open>except ValueError\<close>
  clause does not catch.\<close>

definition check_contact_time ::
  "compliance_service \<Rightarrow> (string \<Rightarrow> parsed_time option) \<Rightarrow> datetime \<Rightarrow>
   py_error + compliance_check" where
  "check_contact_time svc fromiso nw =
     (if weekday nw \<in> set (prohibited_days svc)
      then Inr (ComplianceCheckSev ''contact_time'' False ''Contact not allowed on Sundays'' ''warning'')
      else
        (case fromiso (contact_hours_start svc) of
           None \<Rightarrow> Inr (ComplianceCheck ''contact_time'' True ''Contact time is within allowed hours'')
         | Some start_time \<Rightarrow>
            (case fromiso (contact_hours_end svc) of
               None \<Rightarrow> Inr (ComplianceCheck ''contact_time'' True ''Contact time is within allowed hours'')
             | Some end_time \<Rightarrow>
                (case start_time of
                   AwareTime a \<Rightarrow> Inl TypeError
                 | NaiveTime st \<Rightarrow>
                    if \<not> time_le st (tod nw)
                    then Inr (ComplianceCheckSev ''contact_time'' False
                           (''Contact only allowed between '' @ contact_hours_start svc @
                            '' and '' @ contact_hours_end svc) ''warning'')
                    else
                     (case end_time of
                        AwareTime a \<Rightarrow> Inl TypeError
                      | NaiveTime en \<Rightarrow>
                         if \<not> time_le (tod nw) en
                         then Inr (ComplianceCheckSev ''contact_time'' False
                                (''Contact only allowed between '' @ contact_hours_start svc @
                                 '' and '' @ contact_hours_end svc) ''warning'')
                         else Inr (ComplianceCheck ''contact_time'' True
                                ''Contact time is within allowed hours''))))))"

definition check_daily_contact_frequency ::
  "compliance_service \<Rightarrow> datetime \<Rightarrow> borrower \<Rightarrow> conversation list \<Rightarrow> compliance_check" where
  "check_daily_contact_frequency svc nw b convs =
     (let today_start = nw\<lparr>tod := time_min\<rparr>;
          today_end = nw\<lparr>tod := time_max\<rparr>;
          daily_conversations = int (length (filter (\<lambda>c. c_borrower_id c = b_id b \<and>
              datetime_le today_start (c_created_at c) \<and> datetime_le (c_created_at c) today_end) convs))
      in if daily_conversations \<ge> max_daily_contact_attempts svc
         then ComplianceCheckSev ''daily_contact_frequency'' False
                (''Maximum daily contact attempts ('' @ str_int (max_daily_contact_attempts svc) @
                 '') exceeded'') ''warning''
         else ComplianceCheck ''daily_contact_frequency'' True
                (''Daily contact attempts: '' @ str_int daily_conversations @ ''/'' @
                 str_int (max_daily_contact_attempts svc)))"

definition check_weekly_contact_frequency ::
  "compliance_service \<Rightarrow> datetime \<Rightarrow> borrower \<Rightarrow> conversation list \<Rightarrow> py_error + compliance_check" where
  "check_weekly_contact_frequency svc nw b convs =
     (case sub_days 7 nw of
        Inl e \<Rightarrow> Inl e
      | Inr week_start \<Rightarrow>
         (let weekly_conversations = int (length (filter (\<lambda>c. c_borrower_id c = b_id b \<and>
                datetime_le week_start (c_created_at c)) convs))
          in if weekly_conversations \<ge> max_weekly_contact_attempts svc
             then Inr (ComplianceCheckSev ''weekly_contact_frequency'' False
                    (''Maximum weekly contact attempts ('' @
                     str_int (max_weekly_contact_attempts svc) @ '') exceeded'') ''warning'')
             else Inr (ComplianceCheck ''weekly_contact_frequency'' True
                    (''Weekly contact attempts: '' @ str_int weekly_conversations @ ''/'' @
                     str_int (max_weekly_contact_attempts svc)))))"

text \<open>The dictionary returned by \<open>check_contact_compliance\<close>; the key \<open>checks\<close> is
  present only in the allowed result.  The checks read \<open>datetime.now()\<close> one after the
  other; the model gives them the one reading \<open>nw\<close>.  Calls of the logging helpers are
  left out here and in the other services.\<close>

record gate_result =
  allowed :: bool
  reason :: "string option"
  checks :: "compliance_check list option"

definition check_contact_compliance ::
  "compliance_service \<Rightarrow> pyfmt \<Rightarrow> (string \<Rightarrow> parsed_time option) \<Rightarrow> datetime \<Rightarrow>
   borrower \<Rightarrow> conversation list \<Rightarrow> py_error + gate_result" where
  "check_contact_compliance svc fmt fromiso nw b convs =
     (let opt_out_check = check_opt_out_status fmt b in
      if \<not> passed opt_out_check
      then Inr \<lparr>allowed = False, reason = Some ''Borrower has opted out of communications'',
                checks = None\<rparr>
      else
       (case check_contact_time svc fromiso nw of
          Inl e \<Rightarrow> Inl e
        | Inr time_check \<Rightarrow>
           if \<not> passed time_check
           then Inr \<lparr>allowed = False, reason = details time_check, checks = None\<rparr>
           else
            (let daily_check = check_daily_contact_frequency svc nw b convs in
             if \<not> passed daily_check
             then Inr \<lparr>allowed = False, reason = details daily_check, checks = None\<rparr>
             else
              (case check_weekly_contact_frequency svc nw b convs of
                 Inl e \<Rightarrow> Inl e
               | Inr weekly_check \<Rightarrow>
                  if \<not> passed weekly_check
                  then Inr \<lparr>allowed = False, reason = details weekly_check, checks = None\<rparr>
                  else Inr \<lparr>allowed = True, reason = None,
                            checks = Some [opt_out_check, time_check, daily_check, weekly_check]\<rparr>))))"

text \<open>\<open>validate_payment_plan(plan_data, loan_balance)\<close>: \<open>plan_data\<close> is a dictionary
  of arbitrary values.  The ratio is only divided out when the balance is positive.\<close>

definition dict_get :: "(string \<rightharpoonup> pyval) \<Rightarrow> string \<Rightarrow> pyval \<Rightarrow> pyval" where
  "dict_get m k dflt = (case m k of None \<Rightarrow> dflt | Some v \<Rightarrow> v)"

definition settlement_percentage_of :: "pyval \<Rightarrow> rat \<Rightarrow> py_error + rat" where
  "settlement_percentage_of settlement_amount loan_balance =
     (if loan_balance > 0
      then (case num_of settlement_amount of Inl e \<Rightarrow> Inl e | Inr a \<Rightarrow> Inr (a / loan_balance))
      else Inr 0)"

definition settlement_checks ::
  "compliance_service \<Rightarrow> pyfmt \<Rightarrow> (string \<rightharpoonup> pyval) \<Rightarrow> rat \<Rightarrow> py_error + compliance_check list" where
  "settlement_checks svc fmt plan_data loan_balance =
     (if plan_data ''type'' = Some (PStr ''settlement'') then
        (case settlement_percentage_of (dict_get plan_data ''amount'' (PInt 0)) loan_balance of
           Inl e \<Rightarrow> Inl e
         | Inr settlement_percentage \<Rightarrow>
            if settlement_percentage > max_settlement_percentage svc
            then Inr [ComplianceCheckSev ''settlement_percentage'' False
                   (''Settlement percentage '' @ fmt_pct fmt settlement_percentage @
                    '' exceeds maximum '' @ fmt_pct fmt (max_settlement_percentage svc)) ''error'']
            else Inr [ComplianceCheck ''settlement_percentage'' True
                   (''Settlement percentage '' @ fmt_pct fmt settlement_percentage @
                    '' is within limits'')])
      else Inr [])"

definition installment_checks ::
  "compliance_service \<Rightarrow> pyfmt \<Rightarrow> (string \<rightharpoonup> pyval) \<Rightarrow> py_error + compliance_check list" where
  "installment_checks svc fmt plan_data =
     (if plan_data ''type'' = Some (PStr ''installment'') then
        (let installments = dict_get plan_data ''installments'' (PInt 0) in
         case num_of installments of
           Inl e \<Rightarrow> Inl e
         | Inr n \<Rightarrow>
            (let duration_check =
               (if n > of_int (max_installment_months svc)
                then ComplianceCheckSev ''installment_duration'' False
                       (''Installment plan duration '' @ str_val fmt installments @
                        '' months exceeds maximum '' @ str_int (max_installment_months svc) @
                        '' months'') ''error''
                else ComplianceCheck ''installment_duration'' True
                       (''Installment plan duration '' @ str_val fmt installments @
                        '' months is within limits''));
                 payment_amount = dict_get plan_data ''amount'' (PInt 0)
             in case num_of payment_amount of
                  Inl e \<Rightarrow> Inl e
                | Inr a \<Rightarrow>
                   if a < 25
                   then Inr [duration_check, ComplianceCheckSev ''minimum_payment'' False
                          (''Payment amount $'' @ str_val fmt payment_amount @
                           '' is below minimum $25'') ''error'']
                   else Inr [duration_check, ComplianceCheck ''minimum_payment'' True
                          (''Payment amount $'' @ str_val fmt payment_amount @
                           '' meets minimum requirements'')]))
      else Inr [])"

text \<open>The two blocks run in sequence on one list of checks.\<close>

definition validate_payment_plan ::
  "compliance_service \<Rightarrow> pyfmt \<Rightarrow> (string \<rightharpoonup> pyval) \<Rightarrow> rat \<Rightarrow> py_error + compliance_check list" where
  "validate_payment_plan svc fmt plan_data loan_balance =
     (case settlement_checks svc fmt plan_data loan_balance of
        Inl e \<Rightarrow> Inl e
      | Inr cs1 \<Rightarrow>
         (case installment_checks svc fmt plan_data of
            Inl e \<Rightarrow> Inl e
          | Inr cs2 \<Rightarrow> Inr (cs1 @ cs2)))"

section \<open>Proposals (app/models/pydantic\_models.py)\<close>

datatype action_type =
    INFORM | COLLECT_PAYMENT | PROPOSE_PLAN | ACKNOWLEDGE | REQUEST_INFO
  | ESCALATE | CLOSE | VERIFY_IDENTITY

datatype plan_type = INSTALLMENT | SETTLEMENT | ONE_TIME

text \<open>\<open>StructuredPlan\<close>; the field \<open>type\<close> of the source is \<open>plan_type\<close> here.\<close>

record structured_plan =
  plan_type :: plan_type
  amount :: rat
  installments :: "int option"
  first_due_date :: "string option"
  frequency :: "string option"

record assistant_response =
  action :: action_type
  message_to_user :: string
  structured_plan :: "structured_plan option"
  confidence :: rat
  escalation :: bool
  compliance_checks :: "string list"
  metadata :: "(string \<times> string) list option"

section \<open>Response validation (app/services/llm\_service.py)\<close>

text \<open>\<open>str.lower()\<close> on ASCII letters, and the substring test \<open>w in s\<close>.\<close>

definition lower_char :: "char \<Rightarrow> char" where
  "lower_char c =
     (if 65 \<le> (of_char c :: nat) \<and> (of_char c :: nat) \<le> 90 then char_of ((of_char c :: nat) + 32) else c)"

definition lower :: "string \<Rightarrow> string" where
  "lower s = map lower_char s"

fun starts_with :: "string \<Rightarrow> string \<Rightarrow> bool" where
  "starts_with [] s = True"
| "starts_with (x # xs) [] = False"
| "starts_with (x # xs) (y # ys) = (x = y \<and> starts_with xs ys)"

fun str_in :: "string \<Rightarrow> string \<Rightarrow> bool" where
  "str_in w [] = (w = [])"
| "str_in w (c # cs) = (starts_with w (c # cs) \<or> str_in w cs)"

text \<open>The environment variables \<open>_validate_payment_plan\<close> reads, already converted.\<close>

record llm_env =
  MAX_SETTLEMENT_PERCENTAGE :: rat
  MAX_INSTALLMENT_MONTHS :: int

definition default_llm_env :: llm_env where
  "default_llm_env = \<lparr>MAX_SETTLEMENT_PERCENTAGE = 7 / 10, MAX_INSTALLMENT_MONTHS = 12\<rparr>"

text \<open>\<open>LLMService._validate_payment_plan\<close>.  The settlement branch reads the maximum
  percentage and then tests only the sign of the amount; the plan carries no balance.\<close>

definition llm_validate_payment_plan :: "llm_env \<Rightarrow> structured_plan \<Rightarrow> string list" where
  "llm_validate_payment_plan env plan =
     (let errors = [];
          errors = (if plan_type plan = SETTLEMENT
                    then (let max_settlement = MAX_SETTLEMENT_PERCENTAGE env
                          in if amount plan \<le> 0
                             then errors @ [''Settlement amount must be positive''] else errors)
                    else errors);
          errors = (if plan_type plan = INSTALLMENT
                    then (let max_months = MAX_INSTALLMENT_MONTHS env;
                              errors = (if (case installments plan of None \<Rightarrow> False
                                            | Some n \<Rightarrow> n \<noteq> 0 \<and> n > max_months)
                                        then errors @ [''Installment plan exceeds maximum '' @
                                                       str_int max_months @ '' months'']
                                        else errors)
                          in if amount plan < 25
                             then errors @ [''Minimum payment amount is $25''] else errors)
                    else errors)
      in errors)"

text \<open>The conversation context assembled for the generator.\<close>

record context_message =
  cm_role :: message_type
  cm_content :: string

record conversation_context =
  ctx_conversation_id :: string
  ctx_state :: conversation_state
  ctx_identity_verified :: bool
  ctx_verification_attempts :: int
  ctx_recent_messages :: "context_message list"
  ctx_channel :: string
  ctx_last_activity :: datetime

definition prohibited_words :: "string list" where
  "prohibited_words = [''threaten'', ''sue'', ''arrest'', ''jail'', ''garnish'', ''seize'']"

definition check_compliance :: "assistant_response \<Rightarrow> conversation_context \<Rightarrow> string list" where
  "check_compliance response ctx =
     (let errors =
            (if \<not> ctx_identity_verified ctx \<and>
                action response \<in> set [INFORM, COLLECT_PAYMENT, PROPOSE_PLAN] \<and>
                (str_in ''balance'' (lower (message_to_user response)) \<or>
                 str_in ''$'' (message_to_user response))
             then [''Cannot share account details without identity verification''] else []);
          message_lower = lower (message_to_user response)
      in errors @ map (\<lambda>word. ''Prohibited language detected: '' @ word)
                      (filter (\<lambda>word. str_in word message_lower) prohibited_words))"

definition handoff_message :: string where
  "handoff_message = ''I need to connect you with a specialist who can better '' @
                     ''assist with your request. They will contact you shortly.''"

definition validation_errors_of ::
  "llm_env \<Rightarrow> assistant_response \<Rightarrow> conversation_context \<Rightarrow> string list" where
  "validation_errors_of env response ctx =
     (case structured_plan response of
        None \<Rightarrow> []
      | Some plan \<Rightarrow> llm_validate_payment_plan env plan) @ check_compliance response ctx"

text \<open>\<open>LLMService._validate_response\<close>: the response object is rewritten in place and
  returned; the model returns the new value.\<close>

definition validate_response ::
  "llm_env \<Rightarrow> assistant_response \<Rightarrow> conversation_context \<Rightarrow> assistant_response" where
  "validate_response env response ctx =
     (if validation_errors_of env response ctx \<noteq> [] \<and> \<not> escalation response
      then response\<lparr>action := ESCALATE,
                    escalation := True,
                    message_to_user := handoff_message,
                    structured_plan := None,
                    compliance_checks := compliance_checks response @ [''validation_failed'']\<rparr>
      else response)"

definition get_fallback_response :: assistant_response where
  "get_fallback_response =
     \<lparr>action = ESCALATE,
      message_to_user = ''I'' @ [char_of (39 :: nat)] @ ''m experiencing technical difficulties and want to ensure '' @
                        ''you receive the best service. Let me connect you with a '' @
                        ''specialist who can assist you immediately.'',
      structured_plan = None,
      confidence = 1,
      escalation = True,
      compliance_checks = [''technical_failure_escalation''],
      metadata = Some [(''fallback_reason'', ''llm_processing_error'')]\<rparr>"

text \<open>\<open>LLMService.process_conversation\<close>.  Retrieval, prompt assembly, the model call
  and the parsing of its answer are the parameter \<open>generate\<close>: the parsed proposal, or
  the exception one of these steps raised.  Any exception yields the fallback.\<close>

definition process_conversation ::
  "llm_env \<Rightarrow> (string \<Rightarrow> conversation_context \<Rightarrow> int \<Rightarrow> int \<Rightarrow> py_error + assistant_response) \<Rightarrow>
   string \<Rightarrow> conversation_context \<Rightarrow> int \<Rightarrow> int \<Rightarrow> assistant_response" where
  "process_conversation env generate user_message ctx loan_id borrower_id =
     (case generate user_message ctx loan_id borrower_id of
        Inl e \<Rightarrow> get_fallback_response
      | Inr parsed_response \<Rightarrow> validate_response env parsed_response ctx)"

section \<open>Persistence\<close>

text \<open>
  The tables are lists of rows in insertion order.  A request works on a session: rows
  it adds or changes are pending in \<open>session\<close> until \<open>commit\<close> copies them to
  \<open>committed\<close>; \<open>rollback\<close> discards them.  Every request starts with a session equal
  to the committed database.  The JSON columns \<open>session_data\<close> and \<open>metadata\<close> of the
  rows, which no modelled function reads, are left out.
\<close>

record message =
  m_conversation_id :: int
  m_message_type :: message_type
  content :: string
  confidence_score :: "rat option"
  compliance_flags :: "string list option"

record payment_plan =
  pp_id :: int
  pp_loan_id :: int
  pp_conversation_id :: int
  pp_plan_type :: payment_plan_type
  total_amount :: rat
  installment_amount :: rat
  number_of_installments :: int
  first_payment_date :: datetime
  payment_frequency :: string
  pp_status :: string

record scheduled_payment =
  payment_plan_id :: int
  installment_number :: int
  due_date :: datetime
  sp_amount :: rat
  sp_status :: string

record db =
  conversations :: "conversation list"
  messages :: "message list"
  loans :: "loan list"
  borrowers :: "borrower list"
  payment_plans :: "payment_plan list"
  scheduled_payments :: "scheduled_payment list"

record store =
  committed :: db
  session :: db

definition commit :: "db \<Rightarrow> store" where
  "commit s = \<lparr>committed = s, session = s\<rparr>"

definition rollback :: "db \<Rightarrow> store" where
  "rollback d = \<lparr>committed = d, session = d\<rparr>"

text \<open>\<open>query(...).filter(P).first()\<close> as the position of the first matching row; the
  object the source then mutates is the row at that position.\<close>

fun find_index :: "('a \<Rightarrow> bool) \<Rightarrow> 'a list \<Rightarrow> nat option" where
  "find_index P [] = None"
| "find_index P (x # xs) = (if P x then Some 0 else map_option Suc (find_index P xs))"

definition put_conversation :: "nat \<Rightarrow> conversation \<Rightarrow> db \<Rightarrow> db" where
  "put_conversation i c d = d\<lparr>conversations := (conversations d)[i := c]\<rparr>"

text \<open>The key the database gives a flushed row.\<close>

definition fresh_id :: "int list \<Rightarrow> int" where
  "fresh_id ids = fold max ids 0 + 1"

section \<open>Payment plans (app/services/conversation\_service.py)\<close>

text \<open>\<open>datetime.fromisoformat\<close> on a \<open>first_due_date\<close>.  The pydantic validator has
  already accepted the string with \<open>strptime('%Y-%m-%d')\<close>; of those strings
  \<open>fromisoformat\<close> takes the ten-character form and raises ValueError on the rest.\<close>

definition digit_val :: "char \<Rightarrow> nat option" where
  "digit_val c =
     (if 48 \<le> (of_char c :: nat) \<and> (of_char c :: nat) \<le> 57 then Some ((of_char c :: nat) - 48) else None)"

fun number_of_digits :: "string \<Rightarrow> nat \<Rightarrow> nat option" where
  "number_of_digits [] acc = Some acc"
| "number_of_digits (c # cs) acc =
     (case digit_val c of None \<Rightarrow> None | Some v \<Rightarrow> number_of_digits cs (10 * acc + v))"

definition fromisoformat :: "string \<Rightarrow> py_error + datetime" where
  "fromisoformat s =
     (if length s = 10 \<and> s ! 4 = CHR ''-'' \<and> s ! 7 = CHR ''-'' then
        (case (number_of_digits (take 4 s) 0, number_of_digits (take 2 (drop 5 s)) 0,
               number_of_digits (drop 8 s) 0) of
           (Some y, Some m, Some d) \<Rightarrow>
             (let r = \<lparr>year = y, month = m, day = d, tod = time_min\<rparr>
              in if valid_date r then Inr r else Inl (ValueError ''Invalid isoformat string''))
         | _ \<Rightarrow> Inl (ValueError ''Invalid isoformat string''))
      else Inl (ValueError ''Invalid isoformat string''))"

text \<open>The date step at the end of each round of the loop in
  \<open>_create_scheduled_payments\<close>.\<close>

definition next_due_date :: "string \<Rightarrow> datetime \<Rightarrow> py_error + datetime" where
  "next_due_date freq current_date =
     (if freq = ''weekly'' then add_days 7 current_date
      else if freq = ''bi-weekly'' then add_days 14 current_date
      else if month current_date = 12
        then replace_ym current_date (year current_date + 1) 1
        else replace_ym current_date (year current_date) (month current_date + 1))"

text \<open>The loop \<open>for i in range(number_of_installments)\<close>: \<open>k\<close> rounds remain, \<open>i\<close> is
  the loop variable, \<open>acc\<close> the rows added so far.  The next date is computed after
  every row, also the last one, and an exception there leaves the function.\<close>

fun scheduled_payments_loop ::
  "payment_plan \<Rightarrow> nat \<Rightarrow> int \<Rightarrow> datetime \<Rightarrow> scheduled_payment list \<Rightarrow>
   py_error + scheduled_payment list" where
  "scheduled_payments_loop pp 0 i current_date acc = Inr acc"
| "scheduled_payments_loop pp (Suc k) i current_date acc =
     (let scheduled_payment =
            \<lparr>payment_plan_id = pp_id pp, installment_number = i + 1, due_date = current_date,
             sp_amount = installment_amount pp, sp_status = ''pending''\<rparr>
      in case next_due_date (payment_frequency pp) current_date of
           Inl e \<Rightarrow> Inl e
         | Inr next_date \<Rightarrow>
             scheduled_payments_loop pp k (i + 1) next_date (acc @ [scheduled_payment]))"

definition create_scheduled_payments :: "payment_plan \<Rightarrow> py_error + scheduled_payment list" where
  "create_scheduled_payments pp =
     scheduled_payments_loop pp (nat (number_of_installments pp)) 0 (first_payment_date pp) []"

definition plan_type_map :: "plan_type \<Rightarrow> payment_plan_type" where
  "plan_type_map t = (case t of INSTALLMENT \<Rightarrow> PPT_INSTALLMENT
                              | SETTLEMENT \<Rightarrow> PPT_SETTLEMENT
                              | ONE_TIME \<Rightarrow> FULL_PAYMENT)"

text \<open>Python truthiness of an optional integer and of an optional string.\<close>

definition truthy_int :: "int option \<Rightarrow> bool" where
  "truthy_int v = (case v of None \<Rightarrow> False | Some n \<Rightarrow> n \<noteq> 0)"

definition truthy_str :: "string option \<Rightarrow> bool" where
  "truthy_str v = (case v of None \<Rightarrow> False | Some s \<Rightarrow> s \<noteq> [])"

text \<open>The \<open>PaymentPlan\<close> row that \<open>_create_payment_plan\<close> builds.\<close>

definition new_payment_plan ::
  "datetime \<Rightarrow> loan \<Rightarrow> conversation \<Rightarrow> structured_plan \<Rightarrow> int \<Rightarrow> py_error + payment_plan" where
  "new_payment_plan utc_now loan_row conv sp new_id =
     (case (if truthy_str (first_due_date sp) then fromisoformat (the (first_due_date sp))
            else add_days 7 utc_now) of
        Inl e \<Rightarrow> Inl e
      | Inr first_date \<Rightarrow>
          Inr \<lparr>pp_id = new_id,
               pp_loan_id = l_id loan_row,
               pp_conversation_id = c_id conv,
               pp_plan_type = plan_type_map (plan_type sp),
               total_amount = amount sp,
               installment_amount = (if plan_type sp = ONE_TIME then amount sp else amount sp),
               number_of_installments = (if truthy_int (installments sp) then the (installments sp) else 1),
               first_payment_date = first_date,
               payment_frequency = (if truthy_str (frequency sp) then the (frequency sp) else ''monthly''),
               pp_status = ''proposed''\<rparr>)"

text \<open>\<open>_create_payment_plan\<close>: the plan is added and flushed; schedule rows are
  created only for an installment plan with a truthy installment count.  Returns the
  plan's id and the session.\<close>

definition create_payment_plan ::
  "datetime \<Rightarrow> loan \<Rightarrow> conversation \<Rightarrow> structured_plan \<Rightarrow> db \<Rightarrow> py_error + (int \<times> db)" where
  "create_payment_plan utc_now loan_row conv sp s =
     (case new_payment_plan utc_now loan_row conv sp (fresh_id (map pp_id (payment_plans s))) of
        Inl e \<Rightarrow> Inl e
      | Inr pp \<Rightarrow>
         (let s1 = s\<lparr>payment_plans := payment_plans s @ [pp]\<rparr>
          in if plan_type sp = INSTALLMENT \<and> truthy_int (installments sp)
             then (case create_scheduled_payments pp of
                     Inl e \<Rightarrow> Inl e
                   | Inr rows \<Rightarrow>
                       Inr (pp_id pp, s1\<lparr>scheduled_payments := scheduled_payments s1 @ rows\<rparr>))
             else Inr (pp_id pp, s1)))"

section \<open>Conversation turns (app/services/conversation\_service.py)\<close>

record conversation_response =
  ok :: bool
  r_conversation_id :: string
  assistant :: assistant_response
  requires_action :: bool
  next_steps :: "string list option"

text \<open>What a turn takes from outside the repository's functions: the compliance
  configuration, built-in formatting and parsing, the generator, the clocks, the value
  of \<open>uuid.uuid4()\<close>, and whether the session flushes pending rows before a query (set
  where the session is made, in \<open>models/database.py\<close>).\<close>

record world =
  w_compliance :: compliance_service
  w_fmt :: pyfmt
  w_fromiso :: "string \<Rightarrow> parsed_time option"
  w_env :: llm_env
  w_generate :: "string \<Rightarrow> conversation_context \<Rightarrow> int \<Rightarrow> int \<Rightarrow> py_error + assistant_response"
  w_clock :: clock
  w_uuid4 :: string
  w_autoflush :: bool

definition active_conversation :: "int \<Rightarrow> string \<Rightarrow> conversation \<Rightarrow> bool" where
  "active_conversation loan_id session_id c \<longleftrightarrow>
     c_loan_id c = loan_id \<and> conversation_id c = session_id \<and> state c \<notin> {CLOSED, OPTED_OUT}"

text \<open>\<open>_get_or_create_conversation\<close> returns the position of the conversation in the
  session and the session.  The column \<open>conversation_id\<close> is unique, so flushing a
  second row with a stored id raises.\<close>

definition get_or_create_conversation ::
  "world \<Rightarrow> int \<Rightarrow> string \<Rightarrow> string \<Rightarrow> db \<Rightarrow> py_error + (nat \<times> db)" where
  "get_or_create_conversation w loan_id session_id chan s =
     (case find_index (active_conversation loan_id session_id) (conversations s) of
        Some i \<Rightarrow>
          Inr (i, put_conversation i ((conversations s ! i)\<lparr>last_activity := utcnow (w_clock w)\<rparr>) s)
      | None \<Rightarrow>
         (case find (\<lambda>l. l_id l = loan_id) (loans s) of
            None \<Rightarrow> Inl (ValueError (''Loan '' @ str_int loan_id @ '' not found''))
          | Some loan_row \<Rightarrow>
             (let new_conversation =
                    \<lparr>c_id = fresh_id (map c_id (conversations s)),
                     conversation_id = (if session_id \<noteq> [] then session_id else w_uuid4 w),
                     c_borrower_id = l_borrower_id loan_row,
                     c_loan_id = loan_id,
                     state = INITIATED,
                     channel = chan,
                     identity_verified = False,
                     verification_attempts = 0,
                     last_activity = db_now (w_clock w),
                     escalation_reason = None,
                     escalation_date = None,
                     c_created_at = db_now (w_clock w)\<rparr>
              in if conversation_id new_conversation \<in> set (map conversation_id (conversations s))
                 then Inl IntegrityError
                 else Inr (length (conversations s),
                           s\<lparr>conversations := conversations s @ [new_conversation]\<rparr>))))"

text \<open>\<open>_build_conversation_context\<close>: the ten latest messages of the conversation,
  oldest first, among the rows \<open>ms\<close> the query sees.\<close>

definition build_conversation_context :: "conversation \<Rightarrow> message list \<Rightarrow> conversation_context" where
  "build_conversation_context conv ms =
     (let mine = filter (\<lambda>m. m_conversation_id m = c_id conv) ms;
          recent = drop (length mine - 10) mine
      in \<lparr>ctx_conversation_id = conversation_id conv,
          ctx_state = state conv,
          ctx_identity_verified = identity_verified conv,
          ctx_verification_attempts = verification_attempts conv,
          ctx_recent_messages =
            map (\<lambda>m. \<lparr>cm_role = m_message_type m, cm_content = content m\<rparr>) recent,
          ctx_channel = channel conv,
          ctx_last_activity = last_activity conv\<rparr>)"

definition escalate_conversation :: "datetime \<Rightarrow> conversation \<Rightarrow> string \<Rightarrow> conversation" where
  "escalate_conversation utc_now conv why =
     conv\<lparr>state := ESCALATED, escalation_reason := Some why, escalation_date := Some utc_now\<rparr>"

definition dict_get_str :: "(string \<times> string) list \<Rightarrow> string \<Rightarrow> string \<Rightarrow> string" where
  "dict_get_str m k dflt = (case map_of m k of None \<Rightarrow> dflt | Some v \<Rightarrow> v)"

text \<open>\<open>_handle_assistant_action\<close>, on the conversation at position \<open>i\<close> of the session.
  \<open>metadata.get\<close> on a missing metadata raises AttributeError.\<close>

definition handle_assistant_action ::
  "world \<Rightarrow> assistant_response \<Rightarrow> nat \<Rightarrow> loan \<Rightarrow> db \<Rightarrow> py_error + (conversation_response \<times> db)" where
  "handle_assistant_action w response i loan_row s =
     (case (if escalation response
            then (case metadata response of
                    None \<Rightarrow> Inl AttributeError
                  | Some md \<Rightarrow>
                      Inr (put_conversation i
                             (escalate_conversation (utcnow (w_clock w)) (conversations s ! i)
                                (dict_get_str md ''escalation_reason'' ''LLM requested escalation'')) s,
                           [''Conversation escalated to human agent'']))
            else Inr (s, [])) of
        Inl e \<Rightarrow> Inl e
      | Inr (s1, steps1) \<Rightarrow>
         (case (case structured_plan response of
                  None \<Rightarrow> Inr (s1, False, steps1)
                | Some sp \<Rightarrow>
                   (case create_payment_plan (utcnow (w_clock w)) loan_row (conversations s1 ! i) sp s1 of
                      Inl e \<Rightarrow> Inl e
                    | Inr (plan_id, s2) \<Rightarrow>
                        Inr (s2, True, steps1 @ [''Payment plan created with ID: '' @ str_int plan_id]))) of
            Inl e \<Rightarrow> Inl e
          | Inr (s2, req2, steps2) \<Rightarrow>
             (let (req3, steps3) =
                    (if action response = VERIFY_IDENTITY
                     then (True, steps2 @ [''Identity verification required'']) else (req2, steps2));
                  (req4, steps4) =
                    (if action response = COLLECT_PAYMENT
                     then (True, steps3 @ [''Payment processing required'']) else (req3, steps3))
              in Inr (\<lparr>ok = True,
                       r_conversation_id = conversation_id (conversations s2 ! i),
                       assistant = response,
                       requires_action = req4,
                       next_steps = Some steps4\<rparr>, s2))))"

definition update_conversation_state :: "datetime \<Rightarrow> conversation \<Rightarrow> assistant_response \<Rightarrow> conversation" where
  "update_conversation_state utc_now conv response =
     (let conv1 =
            (if escalation response then conv\<lparr>state := ESCALATED\<rparr>
             else if action response = VERIFY_IDENTITY then conv\<lparr>state := IDENTITY_VERIFICATION\<rparr>
             else if action response \<in> set [PROPOSE_PLAN, COLLECT_PAYMENT]
               then conv\<lparr>state := ACTIVE_NEGOTIATION\<rparr>
             else if action response = CLOSE then conv\<lparr>state := CLOSED\<rparr>
             else conv)
      in conv1\<lparr>last_activity := utc_now\<rparr>)"

definition create_opted_out_response :: "string \<Rightarrow> conversation_response" where
  "create_opted_out_response cid =
     \<lparr>ok = False,
      r_conversation_id = cid,
      assistant =
        \<lparr>action = CLOSE,
         message_to_user = ''This contact has opted out of communications. No further messages will be sent.'',
         structured_plan = None,
         confidence = 1,
         escalation = False,
         compliance_checks = [''opt_out_respected''],
         metadata = None\<rparr>,
      requires_action = False,
      next_steps = None\<rparr>"

text \<open>An f-string prints a missing reason as \<open>None\<close>.\<close>

definition create_compliance_blocked_response :: "string \<Rightarrow> string option \<Rightarrow> conversation_response" where
  "create_compliance_blocked_response cid why =
     \<lparr>ok = False,
      r_conversation_id = cid,
      assistant =
        \<lparr>action = CLOSE,
         message_to_user = ''Contact not allowed at this time: '' @
                           (case why of None \<Rightarrow> ''None'' | Some r \<Rightarrow> r),
         structured_plan = None,
         confidence = 1,
         escalation = False,
         compliance_checks = [''contact_time_restriction''],
         metadata = None\<rparr>,
      requires_action = False,
      next_steps = None\<rparr>"

text \<open>\<open>process_message\<close> on a request whose session starts at the committed database
  \<open>d\<close>.  The result is the response or the exception raised, with the store as the
  function leaves it: the \<open>except\<close> clause rolls back, the two early returns neither
  commit nor roll back, and the end of the turn commits.\<close>

definition process_message ::
  "world \<Rightarrow> string \<Rightarrow> int \<Rightarrow> string \<Rightarrow> string \<Rightarrow> db \<Rightarrow>
   (py_error + conversation_response) \<times> store" where
  "process_message w user_message loan_id session_id chan d =
     (case get_or_create_conversation w loan_id session_id chan d of
        Inl e \<Rightarrow> (Inl e, rollback d)
      | Inr (i, s) \<Rightarrow>
         (let conversation = conversations s ! i in
          if state conversation = OPTED_OUT
          then (Inr (create_opted_out_response (conversation_id conversation)),
                \<lparr>committed = d, session = s\<rparr>)
          else
           (case find (\<lambda>l. l_id l = loan_id) (loans s) of
              None \<Rightarrow> (Inl (ValueError (''Loan '' @ str_int loan_id @ '' not found'')), rollback d)
            | Some loan_row \<Rightarrow>
               (case find (\<lambda>b. b_id b = l_borrower_id loan_row) (borrowers s) of
                  None \<Rightarrow> (Inl (ValueError (''Borrower for loan '' @ str_int loan_id @ '' not found'')),
                            rollback d)
                | Some borrower_row \<Rightarrow>
                   (case check_contact_compliance (w_compliance w) (w_fmt w) (w_fromiso w)
                           (now (w_clock w)) borrower_row (conversations s) of
                      Inl e \<Rightarrow> (Inl e, rollback d)
                    | Inr compliance_check \<Rightarrow>
                       if \<not> allowed compliance_check
                       then (Inr (create_compliance_blocked_response (conversation_id conversation)
                                    (reason compliance_check)),
                             \<lparr>committed = d, session = s\<rparr>)
                       else
                        (let user_msg = \<lparr>m_conversation_id = c_id conversation, m_message_type = USER,
                                         content = user_message, confidence_score = None,
                                         compliance_flags = None\<rparr>;
                             s1 = s\<lparr>messages := messages s @ [user_msg]\<rparr>;
                             conversation_context =
                               build_conversation_context conversation
                                 (if w_autoflush w then messages s1 else messages s);
                             assistant_response =
                               process_conversation (w_env w) (w_generate w) user_message
                                 conversation_context loan_id (b_id borrower_row)
                         in case handle_assistant_action w assistant_response i loan_row s1 of
                              Inl e \<Rightarrow> (Inl e, rollback d)
                            | Inr (response, s2) \<Rightarrow>
                               (let assistant_msg =
                                      \<lparr>m_conversation_id = c_id conversation, m_message_type = ASSISTANT,
                                       content = message_to_user assistant_response,
                                       confidence_score = Some (confidence assistant_response),
                                       compliance_flags = Some (compliance_checks assistant_response)\<rparr>;
                                    s3 = s2\<lparr>messages := messages s2 @ [assistant_msg]\<rparr>;
                                    s4 = put_conversation i
                                           (update_conversation_state (utcnow (w_clock w))
                                              (conversations s3 ! i) assistant_response) s3
                                in (Inr response, commit s4))))))))"

section \<open>Identity verification (app/services/conversation\_service.py)\<close>

definition max_verification_attempts :: int where
  "max_verification_attempts = 3"

record verify_result =
  verified :: bool
  v_message :: string
  attempts_remaining :: int

text \<open>The value of \<open>float(text)\<close>; the parser itself is a parameter (\<open>None\<close> is its
  ValueError).\<close>

datatype pyfloat = Finite rat | PosInf | NegInf | NaN

text \<open>\<open>abs(provided_amount - recorded) > 0.01\<close>; false on a NaN.\<close>

fun amount_differs :: "pyfloat \<Rightarrow> rat \<Rightarrow> bool" where
  "amount_differs (Finite r) x = (\<bar>r - x\<bar> > 1 / 100)"
| "amount_differs PosInf x = True"
| "amount_differs NegInf x = True"
| "amount_differs NaN x = False"

text \<open>The two checks on the supplied facts.  A fact that is absent is not checked;
  reading a field of a missing borrower or loan row raises AttributeError.\<close>

definition check_facts ::
  "(string \<Rightarrow> pyfloat option) \<Rightarrow> (string \<rightharpoonup> string) \<Rightarrow> loan option \<Rightarrow> borrower option \<Rightarrow>
   py_error + bool" where
  "check_facts float_of verification_data loan_row borrower_row =
     (case (case verification_data ''last_four_ssn'' of
              None \<Rightarrow> Inr True
            | Some ssn \<Rightarrow>
               (case borrower_row of
                  None \<Rightarrow> Inl AttributeError
                | Some b \<Rightarrow> Inr (\<not> (Some ssn \<noteq> ssn_last_four b)))) of
        Inl e \<Rightarrow> Inl e
      | Inr passed1 \<Rightarrow>
         (case verification_data ''last_payment_amount'' of
            None \<Rightarrow> Inr passed1
          | Some txt \<Rightarrow>
             (case float_of txt of
                None \<Rightarrow> Inr False
              | Some provided_amount \<Rightarrow>
                 (case loan_row of
                    None \<Rightarrow> Inl AttributeError
                  | Some l \<Rightarrow>
                     if amount_differs provided_amount
                          (case last_payment_amount l of None \<Rightarrow> 0 | Some a \<Rightarrow> if a = 0 then 0 else a)
                     then Inr False else Inr passed1))))"

text \<open>\<open>verify_identity\<close>, on a request whose session starts at the committed database
  \<open>d\<close>.  The function has no \<open>except\<close> clause: an exception leaves the session as it
  is, uncommitted.  Both log calls after the counter is incremented read the ids of the
  borrower and loan rows.\<close>

definition verify_identity ::
  "datetime \<Rightarrow> (string \<Rightarrow> pyfloat option) \<Rightarrow> string \<Rightarrow> (string \<rightharpoonup> string) \<Rightarrow> db \<Rightarrow>
   (py_error + verify_result) \<times> store" where
  "verify_identity utc_now float_of cid verification_data d =
     (case find_index (\<lambda>c. conversation_id c = cid) (conversations d) of
        None \<Rightarrow> (Inl (ValueError ''Conversation not found''), \<lparr>committed = d, session = d\<rparr>)
      | Some i \<Rightarrow>
         (let conversation = conversations d ! i;
              loan_row = find (\<lambda>l. l_id l = c_loan_id conversation) (loans d);
              borrower_row = find (\<lambda>b. b_id b = c_borrower_id conversation) (borrowers d)
          in if verification_attempts conversation \<ge> max_verification_attempts
             then (Inr \<lparr>verified = False,
                        v_message = ''Maximum verification attempts exceeded. Escalating to human agent.'',
                        attempts_remaining = 0\<rparr>,
                   commit (put_conversation i
                             (escalate_conversation utc_now conversation
                                ''Maximum verification attempts exceeded'') d))
             else
              (case check_facts float_of verification_data loan_row borrower_row of
                 Inl e \<Rightarrow> (Inl e, \<lparr>committed = d, session = d\<rparr>)
               | Inr verification_passed \<Rightarrow>
                  (let conv1 = conversation\<lparr>verification_attempts := verification_attempts conversation + 1\<rparr>;
                       conv2 = (if verification_passed
                                then conv1\<lparr>identity_verified := True, state := ACTIVE_NEGOTIATION\<rparr>
                                else conv1);
                       s = put_conversation i conv2 d;
                       remaining = max_verification_attempts - verification_attempts conv2
                   in if borrower_row = None \<or> loan_row = None
                      then (Inl AttributeError, \<lparr>committed = d, session = s\<rparr>)
                      else if verification_passed
                      then (Inr \<lparr>verified = True, v_message = ''Identity verified successfully.'',
                                 attempts_remaining = remaining\<rparr>, commit s)
                      else (Inr \<lparr>verified = False,
                                 v_message = ''Identity verification failed. '' @ str_int remaining @
                                             '' attempts remaining.'',
                                 attempts_remaining = remaining\<rparr>, commit s)))))"

text \<open>A run of verification requests on one conversation, each on the database the
  previous one left committed; the outcomes are listed in order.\<close>

fun verify_all ::
  "(string \<Rightarrow> pyfloat option) \<Rightarrow> string \<Rightarrow> (datetime \<times> (string \<rightharpoonup> string)) list \<Rightarrow> db \<Rightarrow>
   (py_error + verify_result) list \<times> db" where
  "verify_all float_of cid [] d = ([], d)"
| "verify_all float_of cid ((utc_now, verification_data) # rest) d =
     (let (r, st) = verify_identity utc_now float_of cid verification_data d;
          (rs, d') = verify_all float_of cid rest (committed st)
      in (r # rs, d'))"

section \<open>Due-date steps\<close>

text \<open>The step between two consecutive due dates in the words of the specification:
  seven or fourteen days later for the weekly and bi-weekly frequencies, and otherwise the
  same day of the next calendar month, the year rolling over after December.\<close>

definition steps_by_frequency :: "string \<Rightarrow> datetime \<Rightarrow> datetime \<Rightarrow> bool" where
  "steps_by_frequency freq a b \<longleftrightarrow>
     valid_date b \<and> tod b = tod a \<and>
     (if freq = ''weekly'' then toordinal b = toordinal a + 7
      else if freq = ''bi-weekly'' then toordinal b = toordinal a + 14
      else day b = day a \<and>
           (if month a = 12 then year b = year a + 1 \<and> month b = 1
            else year b = year a \<and> month b = month a + 1))"

section \<open>Sample inputs\<close>

text \<open>Concrete values on which the theorems below are evaluated.  \<open>sample_fromiso\<close>
  reads the two default hour settings and a start with a UTC offset, and rejects every
  other text.\<close>

definition sample_fromiso :: "string \<Rightarrow> parsed_time option" where
  "sample_fromiso s =
     (if s = ''08:00'' then Some (NaiveTime \<lparr>hour = 8, minute = 0, second = 0, microsecond = 0\<rparr>)
      else if s = ''21:00''
        then Some (NaiveTime \<lparr>hour = 21, minute = 0, second = 0, microsecond = 0\<rparr>)
      else if s = ''08:00+01:00''
        then Some (AwareTime \<lparr>hour = 8, minute = 0, second = 0, microsecond = 0\<rparr>)
      else None)"

definition at_time :: "nat \<Rightarrow> nat \<Rightarrow> nat \<Rightarrow> nat \<Rightarrow> nat \<Rightarrow> datetime" where
  "at_time y m d h mi =
     \<lparr>year = y, month = m, day = d, tod = \<lparr>hour = h, minute = mi, second = 0, microsecond = 0\<rparr>\<rparr>"

definition sample_fmt :: pyfmt where
  "sample_fmt = \<lparr>str_datetime = (\<lambda>d. ''<datetime>''), str_val = (\<lambda>v. ''<value>''),
                 fmt_pct = (\<lambda>r. ''<percent>'')\<rparr>"

definition opted_out_borrower :: borrower where
  "opted_out_borrower =
     \<lparr>b_id = 1, ssn_last_four = Some ''1234'', opt_out_date = Some (at_time 2025 10 1 9 0)\<rparr>"

definition sample_loan :: loan where
  "sample_loan = \<lparr>l_id = 1, l_borrower_id = 1, current_balance = 1200, last_payment_amount = Some 150\<rparr>"

definition sample_conversation :: conversation where
  "sample_conversation =
     \<lparr>c_id = 1, conversation_id = ''s1'', c_borrower_id = 1, c_loan_id = 1, state = INITIATED,
      channel = ''chat'', identity_verified = False, verification_attempts = 0,
      last_activity = at_time 2025 11 3 10 0, escalation_reason = None, escalation_date = None,
      c_created_at = at_time 2025 11 3 10 0\<rparr>"

definition verified_context :: conversation_context where
  "verified_context =
     \<lparr>ctx_conversation_id = ''s1'', ctx_state = ACTIVE_NEGOTIATION, ctx_identity_verified = True,
      ctx_verification_attempts = 1, ctx_recent_messages = [], ctx_channel = ''chat'',
      ctx_last_activity = at_time 2025 11 3 10 0\<rparr>"

definition settlement_1400 :: structured_plan where
  "settlement_1400 =
     \<lparr>plan_type = SETTLEMENT, amount = 1400, installments = None,
      first_due_date = Some ''2025-11-05'', frequency = Some ''monthly''\<rparr>"

definition settlement_proposal :: assistant_response where
  "settlement_proposal =
     \<lparr>action = PROPOSE_PLAN,
      message_to_user = ''I can accept 1400 as a full settlement.'',
      structured_plan = Some settlement_1400,
      confidence = 88 / 100,
      escalation = False,
      compliance_checks = [''settlement_within_policy''],
      metadata = Some [(''raw_response'', ''{}'')]\<rparr>"

definition dollar_proposal :: assistant_response where
  "dollar_proposal =
     \<lparr>action = INFORM,
      message_to_user = ''You owe $1200.'',
      structured_plan = None,
      confidence = 9 / 10,
      escalation = False,
      compliance_checks = [],
      metadata = Some [(''raw_response'', ''{}'')]\<rparr>"

definition installment_200_x_6 :: structured_plan where
  "installment_200_x_6 =
     \<lparr>plan_type = INSTALLMENT, amount = 200, installments = Some 6,
      first_due_date = Some ''2025-11-10'', frequency = Some ''monthly''\<rparr>"

definition plan_row_200_x_6 :: payment_plan where
  "plan_row_200_x_6 =
     \<lparr>pp_id = 1, pp_loan_id = 1, pp_conversation_id = 1, pp_plan_type = PPT_INSTALLMENT,
      total_amount = 200, installment_amount = 200, number_of_installments = 6,
      first_payment_date = \<lparr>year = 2025, month = 11, day = 10, tod = time_min\<rparr>,
      payment_frequency = ''monthly'', pp_status = ''proposed''\<rparr>"

definition empty_db :: db where
  "empty_db = \<lparr>conversations = [], messages = [], loans = [], borrowers = [],
               payment_plans = [], scheduled_payments = []\<rparr>"

definition settlement_row_1400 :: payment_plan where
  "settlement_row_1400 =
     \<lparr>pp_id = 1, pp_loan_id = 1, pp_conversation_id = 1, pp_plan_type = PPT_SETTLEMENT,
      total_amount = 1400, installment_amount = 1400, number_of_installments = 1,
      first_payment_date = \<lparr>year = 2025, month = 11, day = 5, tod = time_min\<rparr>,
      payment_frequency = ''monthly'', pp_status = ''proposed''\<rparr>"

definition midnight :: "nat \<Rightarrow> nat \<Rightarrow> nat \<Rightarrow> datetime" where
  "midnight y m d = \<lparr>year = y, month = m, day = d, tod = time_min\<rparr>"

definition pending_200 :: "int \<Rightarrow> datetime \<Rightarrow> scheduled_payment" where
  "pending_200 n d = \<lparr>payment_plan_id = 1, installment_number = n, due_date = d, sp_amount = 200,
                      sp_status = ''pending''\<rparr>"

definition schedule_200_x_6 :: "scheduled_payment list" where
  "schedule_200_x_6 =
     [pending_200 1 (midnight 2025 11 10), pending_200 2 (midnight 2025 12 10),
      pending_200 3 (midnight 2026 1 10), pending_200 4 (midnight 2026 2 10),
      pending_200 5 (midnight 2026 3 10), pending_200 6 (midnight 2026 4 10)]"

text \<open>The answer of \<open>verify_identity\<close> once the limit is reached, and its answer to a
  failed attempt.\<close>

definition locked_result :: verify_result where
  "locked_result =
     \<lparr>verified = False,
      v_message = ''Maximum verification attempts exceeded. Escalating to human agent.'',
      attempts_remaining = 0\<rparr>"

definition failed_result :: "int \<Rightarrow> verify_result" where
  "failed_result remaining =
     \<lparr>verified = False,
      v_message = ''Identity verification failed. '' @ str_int remaining @ '' attempts remaining.'',
      attempts_remaining = remaining\<rparr>"

definition sample_borrower :: borrower where
  "sample_borrower = \<lparr>b_id = 1, ssn_last_four = Some ''1234'', opt_out_date = None\<rparr>"

definition sample_db_at :: "int \<Rightarrow> db" where
  "sample_db_at k =
     \<lparr>conversations = [sample_conversation\<lparr>verification_attempts := k\<rparr>], messages = [],
      loans = [sample_loan], borrowers = [sample_borrower], payment_plans = [],
      scheduled_payments = []\<rparr>"

definition sample_float_of :: "string \<Rightarrow> pyfloat option" where
  "sample_float_of s = (if s = ''150.00'' then Some (Finite 150) else None)"

definition wrong_ssn :: "string \<rightharpoonup> string" where
  "wrong_ssn = map_of [(''last_four_ssn'', ''0000'')]"

definition right_facts :: "string \<rightharpoonup> string" where
  "right_facts = map_of [(''last_four_ssn'', ''1234''), (''last_payment_amount'', ''150.00'')]"

definition three_wrong_calls :: "(datetime \<times> (string \<rightharpoonup> string)) list" where
  "three_wrong_calls =
     [(at_time 2025 11 3 10 1, wrong_ssn), (at_time 2025 11 3 10 2, wrong_ssn),
      (at_time 2025 11 3 10 3, wrong_ssn)]"

definition sample_world :: world where
  "sample_world =
     \<lparr>w_compliance = default_compliance_service,
      w_fmt = sample_fmt,
      w_fromiso = sample_fromiso,
      w_env = default_llm_env,
      w_generate = (\<lambda>user_message ctx loan_id borrower_id. Inr dollar_proposal),
      w_clock = \<lparr>now = at_time 2025 11 10 12 0, utcnow = at_time 2025 11 10 12 0,
                 db_now = at_time 2025 11 10 12 0\<rparr>,
      w_uuid4 = ''00000000-0000-4000-8000-000000000000'',
      w_autoflush = True\<rparr>"

definition opted_out_db :: db where
  "opted_out_db =
     \<lparr>conversations = [sample_conversation], messages = [], loans = [sample_loan],
      borrowers = [opted_out_borrower], payment_plans = [], scheduled_payments = []\<rparr>"

definition touched_conversation :: conversation where
  "touched_conversation = sample_conversation\<lparr>last_activity := at_time 2025 11 10 12 0\<rparr>"

definition new_conversation_s2 :: conversation where
  "new_conversation_s2 =
     \<lparr>c_id = 2, conversation_id = ''s2'', c_borrower_id = 1, c_loan_id = 1, state = INITIATED,
      channel = ''chat'', identity_verified = False, verification_attempts = 0,
      last_activity = at_time 2025 11 10 12 0, escalation_reason = None, escalation_date = None,
      c_created_at = at_time 2025 11 10 12 0\<rparr>"

definition opted_out_block :: gate_result where
  "opted_out_block =
     \<lparr>allowed = False, reason = Some ''Borrower has opted out of communications'', checks = None\<rparr>"

definition installment_200_x_24 :: structured_plan where
  "installment_200_x_24 =
     \<lparr>plan_type = INSTALLMENT, amount = 200, installments = Some 24,
      first_due_date = Some ''2025-11-10'', frequency = Some ''monthly''\<rparr>"

definition escalating_violation :: assistant_response where
  "escalating_violation =
     \<lparr>action = PROPOSE_PLAN,
      message_to_user = ''Pay in 24 installments or we will sue you.'',
      structured_plan = Some installment_200_x_24,
      confidence = 9 / 10,
      escalation = True,
      compliance_checks = [],
      metadata = Some [(''raw_response'', ''{}'')]\<rparr>"

section \<open>Auxiliary lemmas\<close>

lemmas calendar_defs = weekday_def toordinal_def days_before_year_def days_before_month_def
  days_in_month_def is_leap_def valid_date_def

lemmas str_simps = lower_def lower_char_def prohibited_words_def

lemma fromiso_2025_11_10:
  "fromisoformat ''2025-11-10'' = Inr \<lparr>year = 2025, month = 11, day = 10, tod = time_min\<rparr>"
  by (simp add: fromisoformat_def digit_val_def calendar_defs)

lemma weekday_2025_11_10: "weekday (at_time 2025 11 10 h mi) = 0"
  by (simp add: calendar_defs at_time_def upt_conv_Cons)

lemma weekday_2025_11_09: "weekday (at_time 2025 11 9 h mi) = 6"
  by (simp add: calendar_defs at_time_def upt_conv_Cons)

lemma days_before_month_Suc:
  "1 \<le> m \<Longrightarrow> days_before_month y (Suc m) = days_before_month y m + days_in_month y m"
  by (simp add: days_before_month_def)

lemma days_before_month_1: "days_before_month y (Suc 0) = 0"
  by (simp add: days_before_month_def)

lemma days_before_month_12: "days_before_month y 12 = (if is_leap y then 335 else 334)"
  by (simp add: days_before_month_def days_in_month_def upt_conv_Cons)

lemma days_before_year_Suc:
  assumes "1 \<le> y"
  shows "days_before_year (Suc y) = days_before_year y + (if is_leap y then 366 else 365)"
proof -
  from assms obtain k where k: "y = Suc k" by (cases y) auto
  have le: "k div 100 \<le> k div 4" by (rule div_le_mono2) simp_all
  have le': "Suc k div 100 \<le> Suc k div 4" by (rule div_le_mono2) simp_all
  have e1: "days_before_year (Suc k) + k div 100 = k * 365 + k div 4 + k div 400"
    using le by (simp add: days_before_year_def)
  have e2: "days_before_year (Suc (Suc k)) + Suc k div 100
              = k * 365 + 365 + Suc k div 4 + Suc k div 400"
    using le' by (simp add: days_before_year_def)
  have m1: "Suc k mod 400 = 0 \<Longrightarrow> Suc k mod 100 = 0"
    using dvd_trans [of 100 400 "Suc k"] by (simp add: mod_eq_0_iff_dvd)
  have m2: "Suc k mod 100 = 0 \<Longrightarrow> Suc k mod 4 = 0"
    using dvd_trans [of 4 100 "Suc k"] by (simp add: mod_eq_0_iff_dvd)
  have n1: "Suc k mod 100 \<noteq> 0" if h: "Suc k mod 4 \<noteq> 0"
  proof
    assume "Suc k mod 100 = 0"
    from h m2 [OF this] show False by (rule notE)
  qed
  have n2: "Suc k mod 400 \<noteq> 0" if h: "Suc k mod 100 \<noteq> 0"
  proof
    assume "Suc k mod 400 = 0"
    from h m1 [OF this] show False by (rule notE)
  qed
  have d4: "Suc k div 4 = k div 4 + (if Suc k mod 4 = 0 then 1 else 0)"
    by (simp add: div_Suc)
  have d100: "Suc k div 100 = k div 100 + (if Suc k mod 100 = 0 then 1 else 0)"
    by (simp add: div_Suc)
  have d400: "Suc k div 400 = k div 400 + (if Suc k mod 400 = 0 then 1 else 0)"
    by (simp add: div_Suc)
  consider (c400) "Suc k mod 400 = 0" | (c100) "Suc k mod 400 \<noteq> 0" "Suc k mod 100 = 0"
    | (c4) "Suc k mod 100 \<noteq> 0" "Suc k mod 4 = 0" | (c1) "Suc k mod 4 \<noteq> 0"
    by blast
  then have "days_before_year (Suc (Suc k))
               = days_before_year (Suc k) + (if is_leap (Suc k) then 366 else 365)"
  proof cases
    case c400
    with m1 m2 have "Suc k mod 100 = 0" "Suc k mod 4 = 0" by simp_all
    with c400 e1 e2 d4 d100 d400 show ?thesis by (simp add: is_leap_def)
  next
    case c100
    with m2 have "Suc k mod 4 = 0" by simp
    with c100 e1 e2 d4 d100 d400 show ?thesis by (simp add: is_leap_def)
  next
    case c4
    have "Suc k mod 400 \<noteq> 0" by (rule n2) (rule c4(1))
    with c4 e1 e2 d4 d100 d400 show ?thesis by (simp add: is_leap_def)
  next
    case c1
    have h100: "Suc k mod 100 \<noteq> 0" by (rule n1) (rule c1)
    have h400: "Suc k mod 400 \<noteq> 0" by (rule n2) (rule h100)
    note h100 h400
    with c1 e1 e2 d4 d100 d400 show ?thesis by (simp add: is_leap_def)
  qed
  then show ?thesis by (simp add: k)
qed

lemma toordinal_next_day:
  assumes "valid_date d"
  shows "toordinal (next_day d) = toordinal d + 1"
proof -
  consider (a) "day d < days_in_month (year d) (month d)"
    | (b) "\<not> day d < days_in_month (year d) (month d)" "month d < 12"
    | (c) "\<not> day d < days_in_month (year d) (month d)" "\<not> month d < 12"
    by blast
  then show ?thesis
  proof cases
    case a
    then show ?thesis by (simp add: next_day_def toordinal_def)
  next
    case b
    with assms have "day d = days_in_month (year d) (month d)" "1 \<le> month d"
      by (auto simp: valid_date_def)
    with b show ?thesis
      using days_before_month_Suc [of "month d" "year d"]
      by (simp add: next_day_def toordinal_def)
  next
    case c
    with assms have m: "month d = 12" and dd: "day d = 31" and y: "1 \<le> year d"
      by (auto simp: valid_date_def days_in_month_def)
    show ?thesis
      using c m dd days_before_year_Suc [OF y]
      by (simp add: next_day_def toordinal_def days_before_month_1 days_before_month_12)
  qed
qed

lemma year_next_day: "year d \<le> year (next_day d)"
  by (simp add: next_day_def)

lemma tod_next_day: "tod (next_day d) = tod d"
  by (simp add: next_day_def)

lemma valid_next_day:
  "valid_date d \<Longrightarrow> year (next_day d) \<le> 9999 \<Longrightarrow> valid_date (next_day d)"
  by (auto simp: valid_date_def next_day_def days_in_month_def split: if_splits)

lemma funpow_next_day:
  "valid_date d \<Longrightarrow> year ((next_day ^^ n) d) \<le> 9999 \<Longrightarrow>
   valid_date ((next_day ^^ n) d) \<and> toordinal ((next_day ^^ n) d) = toordinal d + n \<and>
   tod ((next_day ^^ n) d) = tod d"
proof (induction n)
  case 0
  then show ?case by simp
next
  case (Suc n)
  have "year ((next_day ^^ n) d) \<le> year (next_day ((next_day ^^ n) d))"
    by (rule year_next_day)
  with Suc.prems(2) have y: "year ((next_day ^^ n) d) \<le> 9999" by simp
  from Suc.IH [OF Suc.prems(1) y] Suc.prems(2) show ?case
    by (simp add: valid_next_day toordinal_next_day tod_next_day)
qed

lemma add_days_step:
  assumes "valid_date a" and "add_days n a = Inr b"
  shows "valid_date b \<and> toordinal b = toordinal a + n \<and> tod b = tod a"
proof -
  from assms(2) have "b = (next_day ^^ n) a" and "year ((next_day ^^ n) a) \<le> 9999"
    by (auto simp: add_days_def Let_def split: if_splits)
  with funpow_next_day [OF assms(1), of n] show ?thesis by simp
qed

lemma replace_ym_step:
  assumes "replace_ym a y m = Inr b"
  shows "valid_date b \<and> year b = y \<and> month b = m \<and> day b = day a \<and> tod b = tod a"
  using assms by (auto simp: replace_ym_def Let_def split: if_splits)

lemma next_due_date_step:
  assumes "valid_date a" and "next_due_date freq a = Inr b"
  shows "steps_by_frequency freq a b"
proof -
  consider (w) "freq = ''weekly''" | (b) "freq \<noteq> ''weekly''" "freq = ''bi-weekly''"
    | (m) "freq \<noteq> ''weekly''" "freq \<noteq> ''bi-weekly''"
    by blast
  then show ?thesis
  proof cases
    case w
    with assms(2) have "add_days 7 a = Inr b" by (simp add: next_due_date_def)
    from add_days_step [OF assms(1) this] w show ?thesis by (simp add: steps_by_frequency_def)
  next
    case b
    with assms(2) have "add_days 14 a = Inr b" by (simp add: next_due_date_def)
    from add_days_step [OF assms(1) this] b show ?thesis by (simp add: steps_by_frequency_def)
  next
    case m
    show ?thesis
    proof (cases "month a = 12")
      case True
      with m assms(2) have "replace_ym a (year a + 1) 1 = Inr b" by (simp add: next_due_date_def)
      from replace_ym_step [OF this] m True show ?thesis by (simp add: steps_by_frequency_def)
    next
      case False
      with m assms(2) have "replace_ym a (year a) (month a + 1) = Inr b"
        by (simp add: next_due_date_def)
      from replace_ym_step [OF this] m False show ?thesis by (simp add: steps_by_frequency_def)
    qed
  qed
qed

lemma scheduled_payments_loop_rows:
  "scheduled_payments_loop pp k i cur acc = Inr rows \<Longrightarrow> valid_date cur \<Longrightarrow>
   \<exists>new. rows = acc @ new \<and> length new = k \<and>
     (\<forall>r \<in> set new. sp_amount r = installment_amount pp \<and> payment_plan_id r = pp_id pp \<and>
                      sp_status r = ''pending'') \<and>
     (\<forall>j < k. installment_number (new ! j) = i + 1 + int j) \<and>
     (new \<noteq> [] \<longrightarrow> due_date (hd new) = cur) \<and>
     successively (steps_by_frequency (payment_frequency pp)) (map due_date new)"
proof (induction k arbitrary: i cur acc)
  case 0
  then show ?case by simp
next
  case (Suc k)
  let ?row = "\<lparr>payment_plan_id = pp_id pp, installment_number = i + 1, due_date = cur,
               sp_amount = installment_amount pp, sp_status = ''pending''\<rparr>"
  from Suc.prems(1) obtain nxt where nxt: "next_due_date (payment_frequency pp) cur = Inr nxt"
    and rec: "scheduled_payments_loop pp k (i + 1) nxt (acc @ [?row]) = Inr rows"
    by (auto simp: Let_def split: sum.splits)
  from next_due_date_step [OF Suc.prems(2) nxt]
  have step: "steps_by_frequency (payment_frequency pp) cur nxt" .
  then have "valid_date nxt" by (simp add: steps_by_frequency_def)
  from Suc.IH [OF rec this] obtain new where
    r: "rows = (acc @ [?row]) @ new" and l: "length new = k"
    and flds: "\<forall>r \<in> set new. sp_amount r = installment_amount pp \<and> payment_plan_id r = pp_id pp \<and>
                  sp_status r = ''pending''"
    and nums: "\<forall>j < k. installment_number (new ! j) = i + 1 + 1 + int j"
    and first: "new \<noteq> [] \<longrightarrow> due_date (hd new) = nxt"
    and succ: "successively (steps_by_frequency (payment_frequency pp)) (map due_date new)"
    by blast
  have n: "\<forall>j < Suc k. installment_number ((?row # new) ! j) = i + 1 + int j"
  proof (intro allI impI)
    fix j assume "j < Suc k"
    then show "installment_number ((?row # new) ! j) = i + 1 + int j"
      using nums by (cases j) auto
  qed
  have s: "successively (steps_by_frequency (payment_frequency pp)) (map due_date (?row # new))"
    using succ first step by (cases new) (auto simp: successively_Cons)
  show ?case
    by (rule exI [of _ "?row # new"]) (use r l flds n s in simp)
qed

lemma fromiso_2025_11_05:
  "fromisoformat ''2025-11-05'' = Inr \<lparr>year = 2025, month = 11, day = 5, tod = time_min\<rparr>"
  by (simp add: fromisoformat_def digit_val_def calendar_defs)


lemma fromisoformat_valid:
  assumes "fromisoformat s = Inr d"
  shows "valid_date d"
proof (cases "length s = 10 \<and> s ! 4 = CHR ''-'' \<and> s ! 7 = CHR ''-''")
  case False
  with assms show ?thesis by (simp add: fromisoformat_def)
next
  case True
  show ?thesis
  proof (cases "number_of_digits (take 4 s) 0")
    case None
    with True assms show ?thesis by (simp add: fromisoformat_def)
  next
    case y: (Some y)
    show ?thesis
    proof (cases "number_of_digits (take 2 (drop 5 s)) 0")
      case None
      with True y assms show ?thesis by (simp add: fromisoformat_def)
    next
      case m: (Some m)
      show ?thesis
      proof (cases "number_of_digits (drop 8 s) 0")
        case None
        with True y m assms show ?thesis by (simp add: fromisoformat_def)
      next
        case d: (Some dd)
        with True y m assms show ?thesis
          by (simp add: fromisoformat_def Let_def split: if_splits)
      qed
    qed
  qed
qed

lemma new_payment_plan_fields:
  assumes "new_payment_plan utc_now loan_row conv sp new_id = Inr pp" and "valid_date utc_now"
  shows "valid_date (first_payment_date pp) \<and> pp_id pp = new_id \<and>
         installment_amount pp = amount sp \<and>
         pp_plan_type pp = plan_type_map (plan_type sp) \<and>
         pp_status pp = ''proposed'' \<and>
         number_of_installments pp
           = (if truthy_int (installments sp) then the (installments sp) else 1) \<and>
         payment_frequency pp
           = (if truthy_str (frequency sp) then the (frequency sp) else ''monthly'') \<and>
         (if truthy_str (first_due_date sp)
          then fromisoformat (the (first_due_date sp)) = Inr (first_payment_date pp)
          else add_days 7 utc_now = Inr (first_payment_date pp) \<and>
               toordinal (first_payment_date pp) = toordinal utc_now + 7 \<and>
               tod (first_payment_date pp) = tod utc_now)"
proof -
  from assms(1) obtain fd where
    fd: "(if truthy_str (first_due_date sp) then fromisoformat (the (first_due_date sp))
          else add_days 7 utc_now) = Inr fd"
    and pp: "first_payment_date pp = fd" "pp_id pp = new_id" "installment_amount pp = amount sp"
      "pp_plan_type pp = plan_type_map (plan_type sp)" "pp_status pp = ''proposed''"
      "number_of_installments pp = (if truthy_int (installments sp) then the (installments sp) else 1)"
      "payment_frequency pp = (if truthy_str (frequency sp) then the (frequency sp) else ''monthly'')"
    by (auto simp: new_payment_plan_def split: sum.splits)
  show ?thesis
  proof (cases "truthy_str (first_due_date sp)")
    case True
    with fd pp show ?thesis by (simp add: fromisoformat_valid)
  next
    case False
    with fd have "add_days 7 utc_now = Inr fd" by simp
    from add_days_step [OF assms(2) this] this False pp show ?thesis by simp
  qed
qed

lemma loop_numeral:
  "scheduled_payments_loop pp (numeral v) i cur acc =
     (case next_due_date (payment_frequency pp) cur of
        Inl e \<Rightarrow> Inl e
      | Inr next_date \<Rightarrow>
          scheduled_payments_loop pp (pred_numeral v) (i + 1) next_date
            (acc @ [\<lparr>payment_plan_id = pp_id pp, installment_number = i + 1, due_date = cur,
                     sp_amount = installment_amount pp, sp_status = ''pending''\<rparr>]))"
  by (simp add: numeral_eq_Suc)

lemma monthly_steps:
  "next_due_date ''monthly'' (midnight 2025 11 10) = Inr (midnight 2025 12 10)"
  "next_due_date ''monthly'' (midnight 2025 12 10) = Inr (midnight 2026 1 10)"
  "next_due_date ''monthly'' (midnight 2026 (Suc 0) 10) = Inr (midnight 2026 2 10)"
  "next_due_date ''monthly'' (midnight 2026 2 10) = Inr (midnight 2026 3 10)"
  "next_due_date ''monthly'' (midnight 2026 3 10) = Inr (midnight 2026 4 10)"
  "next_due_date ''monthly'' (midnight 2026 4 10) = Inr (midnight 2026 5 10)"
  by (simp_all add: next_due_date_def replace_ym_def valid_date_def days_in_month_def is_leap_def
        midnight_def)

lemma schedule_200_x_6_eval:
  "create_scheduled_payments plan_row_200_x_6 = Inr schedule_200_x_6"
proof -
  have a: "payment_frequency plan_row_200_x_6 = ''monthly''"
    "installment_amount plan_row_200_x_6 = 200" "pp_id plan_row_200_x_6 = 1"
    "number_of_installments plan_row_200_x_6 = 6"
    "first_payment_date plan_row_200_x_6 = midnight 2025 11 10"
    by (simp_all add: plan_row_200_x_6_def midnight_def)
  show ?thesis
    by (simp add: create_scheduled_payments_def a loop_numeral monthly_steps schedule_200_x_6_def
          pending_200_def)
qed

lemma create_plan_200_x_6:
  "create_payment_plan (at_time 2025 11 3 10 0) sample_loan sample_conversation installment_200_x_6
     empty_db = Inr (1, empty_db\<lparr>payment_plans := [plan_row_200_x_6],
                                 scheduled_payments := schedule_200_x_6\<rparr>)"
proof -
  have np: "new_payment_plan (at_time 2025 11 3 10 0) sample_loan sample_conversation
              installment_200_x_6 1 = Inr plan_row_200_x_6"
    by (simp add: new_payment_plan_def installment_200_x_6_def plan_row_200_x_6_def truthy_str_def
        truthy_int_def fromiso_2025_11_10 plan_type_map_def sample_loan_def sample_conversation_def)
  have fid: "fresh_id (map pp_id (payment_plans empty_db)) = 1"
    by (simp add: empty_db_def fresh_id_def)
  have ty: "plan_type installment_200_x_6 = INSTALLMENT \<and> truthy_int (installments installment_200_x_6)"
    by (simp add: installment_200_x_6_def truthy_int_def)
  have id1: "pp_id plan_row_200_x_6 = 1" by (simp add: plan_row_200_x_6_def)
  show ?thesis
    by (simp add: create_payment_plan_def fid np ty schedule_200_x_6_eval id1)
      (simp add: empty_db_def)
qed

lemma find_index_Some:
  "find_index P xs = Some i \<Longrightarrow> i < length xs \<and> P (xs ! i)"
proof (induction xs arbitrary: i)
  case Nil
  then show ?case by simp
next
  case (Cons x xs)
  then show ?case by (cases "P x") (auto split: if_splits)
qed

lemma find_index_update:
  "find_index P xs = Some i \<Longrightarrow> P c \<Longrightarrow> find_index P (xs[i := c]) = Some i"
proof (induction xs arbitrary: i)
  case Nil
  then show ?case by simp
next
  case (Cons x xs)
  show ?case
  proof (cases "P x")
    case True
    with Cons.prems show ?thesis by simp
  next
    case False
    with Cons.prems obtain j where j: "find_index P xs = Some j" "i = Suc j" by auto
    from Cons.IH [OF j(1) Cons.prems(2)] False j show ?thesis by simp
  qed
qed

text \<open>What one call does to the conversation it looks up.\<close>

lemma verify_identity_locked:
  assumes "find_index (\<lambda>c. conversation_id c = cid) (conversations d) = Some i"
    and "max_verification_attempts \<le> verification_attempts (conversations d ! i)"
  shows "verify_identity t float_of cid data d =
           (Inr locked_result,
            commit (put_conversation i
                      (escalate_conversation t (conversations d ! i)
                         ''Maximum verification attempts exceeded'') d))"
  using assms by (simp add: verify_identity_def Let_def locked_result_def)

lemma verify_identity_cases:
  assumes "find_index (\<lambda>c. conversation_id c = cid) (conversations d) = Some i"
  obtains (locked) "max_verification_attempts \<le> verification_attempts (conversations d ! i)"
      "verify_identity t float_of cid data d =
           (Inr locked_result,
            commit (put_conversation i
                      (escalate_conversation t (conversations d ! i)
                         ''Maximum verification attempts exceeded'') d))"
    | (raised_before) e where "verification_attempts (conversations d ! i) < max_verification_attempts"
      "verify_identity t float_of cid data d = (Inl e, \<lparr>committed = d, session = d\<rparr>)"
    | (raised_after) c where "verification_attempts (conversations d ! i) < max_verification_attempts"
      "verify_identity t float_of cid data d =
         (Inl AttributeError, \<lparr>committed = d, session = put_conversation i c d\<rparr>)"
      "conversation_id c = cid"
      "verification_attempts c = verification_attempts (conversations d ! i) + 1"
    | (answered) r c where "verification_attempts (conversations d ! i) < max_verification_attempts"
      "verify_identity t float_of cid data d = (Inr r, commit (put_conversation i c d))"
      "conversation_id c = cid"
      "verification_attempts c = verification_attempts (conversations d ! i) + 1"
      "attempts_remaining r = max_verification_attempts - verification_attempts c"
proof (cases "max_verification_attempts \<le> verification_attempts (conversations d ! i)")
  case True
  from True verify_identity_locked [OF assms True] show ?thesis by (rule locked)
next
  case False
  then have lt: "verification_attempts (conversations d ! i) < max_verification_attempts" by simp
  from find_index_Some [OF assms] have cid: "conversation_id (conversations d ! i) = cid" by simp
  let ?conv = "conversations d ! i"
  let ?loan = "find (\<lambda>l. l_id l = c_loan_id ?conv) (loans d)"
  let ?borrower = "find (\<lambda>b. b_id b = c_borrower_id ?conv) (borrowers d)"
  show ?thesis
  proof (cases "check_facts float_of data ?loan ?borrower")
    case (Inl e)
    with assms False have
      "verify_identity t float_of cid data d = (Inl e, \<lparr>committed = d, session = d\<rparr>)"
      by (simp add: verify_identity_def Let_def)
    with lt show ?thesis by (rule raised_before)
  next
    case (Inr ok)
    let ?c1 = "?conv\<lparr>verification_attempts := verification_attempts ?conv + 1\<rparr>"
    let ?c2 = "if ok then ?c1\<lparr>identity_verified := True, state := ACTIVE_NEGOTIATION\<rparr> else ?c1"
    have c2: "conversation_id ?c2 = cid"
      "verification_attempts ?c2 = verification_attempts ?conv + 1"
      using cid by simp_all
    show ?thesis
    proof (cases "?borrower = None \<or> ?loan = None")
      case True
      with assms False Inr have
        "verify_identity t float_of cid data d =
           (Inl AttributeError, \<lparr>committed = d, session = put_conversation i ?c2 d\<rparr>)"
        by (simp add: verify_identity_def Let_def)
      with lt show ?thesis using c2 by (rule raised_after)
    next
      case nn: False
      show ?thesis
      proof (cases ok)
        case True
        with assms False Inr nn have
          "verify_identity t float_of cid data d =
             (Inr \<lparr>verified = True, v_message = ''Identity verified successfully.'',
                   attempts_remaining = max_verification_attempts - verification_attempts ?c2\<rparr>,
              commit (put_conversation i ?c2 d))"
          by (simp add: verify_identity_def Let_def)
        with lt show ?thesis using c2 by (rule answered) simp
      next
        case ff: False
        with assms False Inr nn have
          "verify_identity t float_of cid data d =
             (Inr \<lparr>verified = False,
                   v_message = ''Identity verification failed. '' @
                      str_int (max_verification_attempts - verification_attempts ?c2) @
                      '' attempts remaining.'',
                   attempts_remaining = max_verification_attempts - verification_attempts ?c2\<rparr>,
              commit (put_conversation i ?c2 d))"
          by (simp add: verify_identity_def Let_def)
        with lt show ?thesis using c2 by (rule answered) simp
      qed
    qed
  qed
qed


lemma conversations_put:
  "i < length (conversations d) \<Longrightarrow> conversations (put_conversation i c d) ! i = c"
  "conversations (put_conversation i c d) = (conversations d)[i := c]"
  by (simp_all add: put_conversation_def)

lemma verify_identity_step:
  fixes t :: datetime and float_of :: "string \<Rightarrow> pyfloat option" and data :: "string \<rightharpoonup> string"
  assumes fi: "find_index (\<lambda>c. conversation_id c = cid) (conversations d) = Some i"
  defines "st \<equiv> snd (verify_identity t float_of cid data d)"
  shows "find_index (\<lambda>c. conversation_id c = cid) (conversations (committed st)) = Some i"
    and "verification_attempts (conversations d ! i)
           \<le> verification_attempts (conversations (committed st) ! i)"
    and "verification_attempts (conversations d ! i) \<le> max_verification_attempts \<Longrightarrow>
           verification_attempts (conversations (committed st) ! i) \<le> max_verification_attempts \<and>
           verification_attempts (conversations (session st) ! i) \<le> max_verification_attempts"
    and "fst (verify_identity t float_of cid data d) = Inr r \<Longrightarrow>
           min max_verification_attempts (verification_attempts (conversations d ! i) + 1)
             \<le> verification_attempts (conversations (committed st) ! i)"
proof -
  from find_index_Some [OF fi] have len: "i < length (conversations d)"
    and cid: "conversation_id (conversations d ! i) = cid" by simp_all
  have upd: "find_index (\<lambda>c. conversation_id c = cid) ((conversations d)[i := c]) = Some i"
    if "conversation_id c = cid" for c
    using find_index_update [OF fi, of c] that by simp
  have all: "find_index (\<lambda>c. conversation_id c = cid) (conversations (committed st)) = Some i \<and>
    verification_attempts (conversations d ! i)
           \<le> verification_attempts (conversations (committed st) ! i) \<and>
    (verification_attempts (conversations d ! i) \<le> max_verification_attempts \<longrightarrow>
           verification_attempts (conversations (committed st) ! i) \<le> max_verification_attempts \<and>
           verification_attempts (conversations (session st) ! i) \<le> max_verification_attempts) \<and>
    (fst (verify_identity t float_of cid data d) = Inr r \<longrightarrow>
           min max_verification_attempts (verification_attempts (conversations d ! i) + 1)
             \<le> verification_attempts (conversations (committed st) ! i))"
    using fi
  proof (cases rule: verify_identity_cases [where t = t and float_of = float_of and data = data])
    case locked
    then show ?thesis
      using len cid upd [of "escalate_conversation t (conversations d ! i)
                               ''Maximum verification attempts exceeded''"]
      by (simp add: st_def commit_def conversations_put escalate_conversation_def)
  next
    case (raised_before e)
    then show ?thesis using fi by (simp add: st_def)
  next
    case (raised_after c)
    then show ?thesis using fi len by (simp add: st_def conversations_put)
  next
    case (answered r' c)
    then show ?thesis using len upd [of c]
      by (simp add: st_def commit_def conversations_put)
  qed
  then show "find_index (\<lambda>c. conversation_id c = cid) (conversations (committed st)) = Some i"
    and "verification_attempts (conversations d ! i)
           \<le> verification_attempts (conversations (committed st) ! i)"
    and "verification_attempts (conversations d ! i) \<le> max_verification_attempts \<Longrightarrow>
           verification_attempts (conversations (committed st) ! i) \<le> max_verification_attempts \<and>
           verification_attempts (conversations (session st) ! i) \<le> max_verification_attempts"
    and "fst (verify_identity t float_of cid data d) = Inr r \<Longrightarrow>
           min max_verification_attempts (verification_attempts (conversations d ! i) + 1)
             \<le> verification_attempts (conversations (committed st) ! i)"
    by blast+
qed

lemma verify_all_counter:
  assumes "find_index (\<lambda>c. conversation_id c = cid) (conversations d) = Some i"
  shows "find_index (\<lambda>c. conversation_id c = cid)
           (conversations (snd (verify_all float_of cid calls d))) = Some i \<and>
         verification_attempts (conversations d ! i)
           \<le> verification_attempts (conversations (snd (verify_all float_of cid calls d)) ! i) \<and>
         (verification_attempts (conversations d ! i) \<le> max_verification_attempts \<longrightarrow>
          verification_attempts (conversations (snd (verify_all float_of cid calls d)) ! i)
            \<le> max_verification_attempts) \<and>
         ((\<forall>r \<in> set (fst (verify_all float_of cid calls d)). \<exists>v. r = Inr v) \<longrightarrow>
          min max_verification_attempts
              (verification_attempts (conversations d ! i) + int (length calls))
            \<le> verification_attempts (conversations (snd (verify_all float_of cid calls d)) ! i))"
  using assms
proof (induction calls arbitrary: d)
  case Nil
  then show ?case by simp
next
  case (Cons call calls)
  obtain t data where call: "call = (t, data)" by (cases call)
  let ?r = "fst (verify_identity t float_of cid data d)"
  let ?d1 = "committed (snd (verify_identity t float_of cid data d))"
  note s = verify_identity_step [OF Cons.prems, where t = t and float_of = float_of and data = data]
  note ih = Cons.IH [OF s(1)]
  have va: "verify_all float_of cid (call # calls) d =
              (?r # fst (verify_all float_of cid calls ?d1), snd (verify_all float_of cid calls ?d1))"
    by (simp add: call split: prod.splits)
  show ?case
    unfolding va fst_conv snd_conv
  proof (intro conjI impI)
    show "find_index (\<lambda>c. conversation_id c = cid)
            (conversations (snd (verify_all float_of cid calls ?d1))) = Some i"
      using ih by blast
    show "verification_attempts (conversations d ! i)
            \<le> verification_attempts (conversations (snd (verify_all float_of cid calls ?d1)) ! i)"
      using ih s(2) by linarith
    show "verification_attempts (conversations (snd (verify_all float_of cid calls ?d1)) ! i)
            \<le> max_verification_attempts"
      if "verification_attempts (conversations d ! i) \<le> max_verification_attempts"
      using ih s(3) [OF that] by blast
    show "min max_verification_attempts
              (verification_attempts (conversations d ! i) + int (length (call # calls)))
            \<le> verification_attempts (conversations (snd (verify_all float_of cid calls ?d1)) ! i)"
      if a: "\<forall>r \<in> set (?r # fst (verify_all float_of cid calls ?d1)). \<exists>v. r = Inr v"
    proof -
      from a obtain v where v: "?r = Inr v" by auto
      from a have rest: "\<forall>r \<in> set (fst (verify_all float_of cid calls ?d1)). \<exists>v. r = Inr v" by simp
      from s(4) [OF v] have
        "min max_verification_attempts (verification_attempts (conversations d ! i) + 1)
           \<le> verification_attempts (conversations ?d1 ! i)" .
      moreover from ih rest have
        "min max_verification_attempts
              (verification_attempts (conversations ?d1 ! i) + int (length calls))
            \<le> verification_attempts (conversations (snd (verify_all float_of cid calls ?d1)) ! i)"
        by blast
      ultimately show ?thesis by simp
    qed
  qed
qed

lemma verify_all_locked:
  assumes "find_index (\<lambda>c. conversation_id c = cid) (conversations d) = Some i"
    and "max_verification_attempts \<le> verification_attempts (conversations d ! i)"
  shows "\<forall>r \<in> set (fst (verify_all float_of cid calls d)). r = Inr locked_result"
  using assms
proof (induction calls arbitrary: d)
  case Nil
  then show ?case by simp
next
  case (Cons call calls)
  obtain t data where call: "call = (t, data)" by (cases call)
  let ?d1 = "committed (snd (verify_identity t float_of cid data d))"
  note s = verify_identity_step [OF Cons.prems(1), where t = t and float_of = float_of and data = data]
  from s(2) Cons.prems(2) have
    "max_verification_attempts \<le> verification_attempts (conversations ?d1 ! i)" by linarith
  from Cons.IH [OF s(1) this] verify_identity_locked [OF Cons.prems, of t float_of data]
  show ?case by (simp add: call split: prod.splits)
qed

lemma sample_index:
  "find_index (\<lambda>c. conversation_id c = ''s1'') (conversations (sample_db_at k)) = Some 0"
  by (simp add: sample_db_at_def sample_conversation_def)

lemma sample_attempts: "verification_attempts (conversations (sample_db_at k) ! 0) = k"
  by (simp add: sample_db_at_def)

lemma wrong_call_fails:
  "k < 3 \<Longrightarrow> verify_identity t sample_float_of ''s1'' wrong_ssn (sample_db_at k) =
     (Inr (failed_result (2 - k)), commit (sample_db_at (k + 1)))"
  by (simp add: verify_identity_def sample_index Let_def max_verification_attempts_def
        check_facts_def wrong_ssn_def failed_result_def put_conversation_def commit_def
        sample_db_at_def sample_conversation_def sample_loan_def sample_borrower_def)

lemma three_wrong_calls_eval:
  "verify_all sample_float_of ''s1'' three_wrong_calls (sample_db_at 0) =
     ([Inr (failed_result 2), Inr (failed_result 1), Inr (failed_result 0)], sample_db_at 3)"
  by (simp add: three_wrong_calls_def wrong_call_fails commit_def)

lemma get_or_create_frame:
  assumes "get_or_create_conversation w loan_id session_id chan d = Inr (i, s)"
  shows "messages s = messages d \<and> loans s = loans d \<and> borrowers s = borrowers d \<and>
         payment_plans s = payment_plans d \<and> scheduled_payments s = scheduled_payments d \<and>
         ((find_index (active_conversation loan_id session_id) (conversations d) = Some i \<and>
           conversations s =
             (conversations d)[i := (conversations d ! i)\<lparr>last_activity := utcnow (w_clock w)\<rparr>]) \<or>
          (find_index (active_conversation loan_id session_id) (conversations d) = None \<and>
           i = length (conversations d) \<and>
           butlast (conversations s) = conversations d \<and>
           length (conversations s) = Suc (length (conversations d)) \<and>
           state (conversations s ! i) = INITIATED \<and>
           verification_attempts (conversations s ! i) = 0 \<and>
           \<not> identity_verified (conversations s ! i)))"
proof (cases "find_index (active_conversation loan_id session_id) (conversations d)")
  case (Some j)
  with assms show ?thesis
    by (auto simp: get_or_create_conversation_def put_conversation_def)
next
  case None
  with assms show ?thesis
    by (auto simp: get_or_create_conversation_def Let_def split: option.splits if_splits)
qed

lemma opted_out_turn:
  "process_message sample_world ''hello'' 1 ''s1'' ''chat'' opted_out_db =
     (Inr (create_compliance_blocked_response ''s1'' (Some ''Borrower has opted out of communications'')),
      \<lparr>committed = opted_out_db,
       session = opted_out_db\<lparr>conversations := [touched_conversation]\<rparr>\<rparr>)"
  by (simp add: process_message_def get_or_create_conversation_def active_conversation_def
        opted_out_db_def sample_conversation_def sample_world_def put_conversation_def
        sample_loan_def opted_out_borrower_def check_contact_compliance_def
        check_opt_out_status_def ComplianceCheckSev_def touched_conversation_def Let_def)

section \<open>Verified properties\<close>

subsection \<open>Response validation\<close>

text \<open>
  C1.  The claim: a proposal with a settlement plan whose amount exceeds 0.70 of the
  loan balance is forced to Escalate.  The validator never sees a balance: its settlement
  branch reads the maximum percentage and tests only that the amount is positive.  On a
  clean proposal for a settlement of 1400 (balance 1200, ratio above 0.70) no violation
  is found and the proposal is returned as it came, with action \<open>PROPOSE_PLAN\<close>.
\<close>

theorem settlement_over_ceiling_passes_validation:
  "amount settlement_1400 / current_balance sample_loan > MAX_SETTLEMENT_PERCENTAGE default_llm_env \<and>
   validation_errors_of default_llm_env settlement_proposal verified_context = [] \<and>
   validate_response default_llm_env settlement_proposal verified_context = settlement_proposal \<and>
   action (validate_response default_llm_env settlement_proposal verified_context) = PROPOSE_PLAN"
  by (simp add: validate_response_def validation_errors_of_def llm_validate_payment_plan_def
        check_compliance_def settlement_proposal_def settlement_1400_def verified_context_def
        default_llm_env_def sample_loan_def str_simps)

text \<open>
  C3, as stated, fails in its last clause: a proposal with violations whose escalation
  flag is already true is returned exactly as it came.  The sample proposal exceeds the
  installment limit and uses prohibited language; it keeps its action, its message and
  its plan.
\<close>

theorem escalating_violation_counterexample:
  "llm_validate_payment_plan default_llm_env installment_200_x_24 \<noteq> [] \<and>
   check_compliance escalating_violation verified_context \<noteq> [] \<and>
   validate_response default_llm_env escalating_violation verified_context = escalating_violation \<and>
   action (validate_response default_llm_env escalating_violation verified_context) = PROPOSE_PLAN \<and>
   structured_plan (validate_response default_llm_env escalating_violation verified_context)
     = Some installment_200_x_24"
  by (simp add: validate_response_def escalating_violation_def installment_200_x_24_def
        llm_validate_payment_plan_def check_compliance_def default_llm_env_def
        verified_context_def str_simps)

text \<open>
  C3, amended.  When validation finds a violation (in the plan or in the message) and the
  proposal's escalation flag is false, the validator's output has action Escalate, the
  escalation flag set, the hand-off message, no plan, and \<open>validation_failed\<close> appended
  to the compliance checks; the other fields are kept, and the output differs from the
  proposal.  A violating proposal whose escalation flag is already true is returned
  unchanged.
\<close>

theorem violation_forces_escalation:
  assumes "(\<exists>plan. structured_plan r = Some plan \<and> llm_validate_payment_plan env plan \<noteq> []) \<or>
           check_compliance r ctx \<noteq> []"
  shows "(\<not> escalation r \<longrightarrow>
            action (validate_response env r ctx) = ESCALATE \<and>
            escalation (validate_response env r ctx) \<and>
            message_to_user (validate_response env r ctx) = handoff_message \<and>
            structured_plan (validate_response env r ctx) = None \<and>
            compliance_checks (validate_response env r ctx)
              = compliance_checks r @ [''validation_failed''] \<and>
            confidence (validate_response env r ctx) = confidence r \<and>
            metadata (validate_response env r ctx) = metadata r \<and>
            validate_response env r ctx \<noteq> r) \<and>
         (escalation r \<longrightarrow> validate_response env r ctx = r)"
proof (rule conjI; rule impI)
  assume esc: "\<not> escalation r"
  have errs: "validation_errors_of env r ctx \<noteq> []"
    using assms by (auto simp: validation_errors_of_def)
  have neq: "r\<lparr>action := ESCALATE, escalation := True, message_to_user := handoff_message,
               structured_plan := None,
               compliance_checks := compliance_checks r @ [''validation_failed'']\<rparr> \<noteq> r"
  proof
    assume "r\<lparr>action := ESCALATE, escalation := True, message_to_user := handoff_message,
               structured_plan := None,
               compliance_checks := compliance_checks r @ [''validation_failed'']\<rparr> = r"
    then have "escalation (r\<lparr>action := ESCALATE, escalation := True,
               message_to_user := handoff_message, structured_plan := None,
               compliance_checks := compliance_checks r @ [''validation_failed'']\<rparr>) = escalation r"
      by simp
    with esc show False by simp
  qed
  show "action (validate_response env r ctx) = ESCALATE \<and>
        escalation (validate_response env r ctx) \<and>
        message_to_user (validate_response env r ctx) = handoff_message \<and>
        structured_plan (validate_response env r ctx) = None \<and>
        compliance_checks (validate_response env r ctx)
          = compliance_checks r @ [''validation_failed''] \<and>
        confidence (validate_response env r ctx) = confidence r \<and>
        metadata (validate_response env r ctx) = metadata r \<and>
        validate_response env r ctx \<noteq> r"
    using errs esc neq by (simp add: validate_response_def)
next
  assume "escalation r"
  then show "validate_response env r ctx = r" by (simp add: validate_response_def)
qed

theorem violation_forces_escalation_witness:
  "action (validate_response default_llm_env dollar_proposal
             (verified_context\<lparr>ctx_identity_verified := False\<rparr>)) = ESCALATE \<and>
   compliance_checks (validate_response default_llm_env dollar_proposal
             (verified_context\<lparr>ctx_identity_verified := False\<rparr>)) = [''validation_failed'']"
proof -
  have a: "check_compliance dollar_proposal (verified_context\<lparr>ctx_identity_verified := False\<rparr>) \<noteq> []"
    by (simp add: check_compliance_def dollar_proposal_def verified_context_def str_simps)
  have b: "\<not> escalation dollar_proposal" by (simp add: dollar_proposal_def)
  have c: "compliance_checks dollar_proposal = []" by (simp add: dollar_proposal_def)
  show ?thesis using violation_forces_escalation [OF disjI2 [OF a], of default_llm_env] b c by simp
qed

subsection \<open>Contact compliance\<close>

text \<open>
  C6, as stated, fails on the severity.  For an opted-out borrower the value the gate
  returns holds \<open>allowed = False\<close> and the reason, and nothing else: the check record
  with its severity is kept in a local list and is not part of the result.
\<close>

theorem opt_out_block_counterexample:
  "opt_out_date opted_out_borrower = Some (at_time 2025 10 1 9 0) \<and>
   check_contact_compliance default_compliance_service sample_fmt sample_fromiso
       (at_time 2025 11 10 12 0) opted_out_borrower [] = Inr opted_out_block \<and>
   allowed opted_out_block = False \<and>
   reason opted_out_block = Some ''Borrower has opted out of communications'' \<and>
   checks opted_out_block = None"
  by (simp add: check_contact_compliance_def check_opt_out_status_def opted_out_borrower_def
        ComplianceCheckSev_def opted_out_block_def)

text \<open>
  C6, amended.  For a borrower whose \<open>opt_out_date\<close> is set, the gate returns the blocked
  result with the opt-out reason and no check record, whatever the configuration, the
  clock and the contact history are; severity critical is carried by the record that
  \<open>_check_opt_out_status\<close> builds, which has failed.  No later check is evaluated: the
  result is the same where the weekly check would raise.
\<close>

theorem opt_out_always_blocks:
  assumes "opt_out_date b = Some d"
  shows "check_contact_compliance svc fmt fromiso nw b convs =
           Inr \<lparr>allowed = False, reason = Some ''Borrower has opted out of communications'',
                checks = None\<rparr>
         \<and> \<not> passed (check_opt_out_status fmt b)
         \<and> severity (check_opt_out_status fmt b) = ''critical''"
  using assms
  by (simp add: check_contact_compliance_def check_opt_out_status_def ComplianceCheckSev_def)

theorem opt_out_always_blocks_witness:
  "opt_out_date opted_out_borrower = Some (at_time 2025 10 1 9 0) \<and>
   check_contact_compliance default_compliance_service sample_fmt sample_fromiso
       (at_time 1 1 3 10 0) opted_out_borrower [] =
     Inr \<lparr>allowed = False, reason = Some ''Borrower has opted out of communications'', checks = None\<rparr>"
proof -
  have h: "opt_out_date opted_out_borrower = Some (at_time 2025 10 1 9 0)"
    by (simp add: opted_out_borrower_def)
  show ?thesis using h opt_out_always_blocks [OF h] by simp
qed

text \<open>
  C7, as stated, fails twice.  On Monday 2025-11-10 at exactly 21:00:00, the end of the
  default window, the check passes although the time is outside the half-open interval;
  and on Sunday 2025-11-09 an unparsable start setting does not make the check pass,
  because the weekday is tested before the settings are parsed.
\<close>

theorem contact_window_counterexample:
  "weekday (at_time 2025 11 10 21 0) \<notin> set (prohibited_days default_compliance_service) \<and>
   sample_fromiso (contact_hours_end default_compliance_service)
     = Some (NaiveTime (tod (at_time 2025 11 10 21 0))) \<and>
   check_contact_time default_compliance_service sample_fromiso (at_time 2025 11 10 21 0)
     = Inr (ComplianceCheck ''contact_time'' True ''Contact time is within allowed hours'') \<and>
   passed (ComplianceCheck ''contact_time'' True ''Contact time is within allowed hours'') \<and>
   sample_fromiso (contact_hours_start (default_compliance_service\<lparr>contact_hours_start := ''8am''\<rparr>)) = None \<and>
   check_contact_time (default_compliance_service\<lparr>contact_hours_start := ''8am''\<rparr>)
       sample_fromiso (at_time 2025 11 9 10 0)
     = Inr (ComplianceCheckSev ''contact_time'' False ''Contact not allowed on Sundays'' ''warning'') \<and>
   \<not> passed (ComplianceCheckSev ''contact_time'' False ''Contact not allowed on Sundays'' ''warning'')"
  by (simp add: check_contact_time_def weekday_2025_11_10 weekday_2025_11_09
        default_compliance_service_def sample_fromiso_def ComplianceCheck_def
        ComplianceCheckSev_def time_le_def)
    (simp add: at_time_def)

text \<open>
  C7, amended.  The contact-window check blocks exactly when today's weekday is in the
  prohibited set, or both hour settings parse, the start is a naive time, and the clock
  time is before the start or after a naive end (the interval from \<open>contact_hours_start\<close>
  to \<open>contact_hours_end\<close> is closed); a block has severity warning; when a setting does
  not parse the check passes on every weekday that is not prohibited; and the check
  raises, always TypeError, exactly when on such a weekday both settings parse and the
  start is aware, or the start is naive and not after the clock and the end is aware.
\<close>

theorem contact_window_closed_interval:
  "((\<exists>c. check_contact_time svc fromiso nw = Inr c \<and> \<not> passed c) \<longleftrightarrow>
      weekday nw \<in> set (prohibited_days svc) \<or>
      (\<exists>st en. fromiso (contact_hours_start svc) = Some (NaiveTime st) \<and>
               fromiso (contact_hours_end svc) = Some en \<and>
               (\<not> time_le st (tod nw) \<or> (\<exists>e. en = NaiveTime e \<and> \<not> time_le (tod nw) e))))
   \<and> (\<forall>c. check_contact_time svc fromiso nw = Inr c \<and> \<not> passed c \<longrightarrow> severity c = ''warning'')
   \<and> ((fromiso (contact_hours_start svc) = None \<or> fromiso (contact_hours_end svc) = None) \<and>
        weekday nw \<notin> set (prohibited_days svc) \<longrightarrow>
        (\<exists>c. check_contact_time svc fromiso nw = Inr c \<and> passed c))
   \<and> ((\<exists>err. check_contact_time svc fromiso nw = Inl err) \<longleftrightarrow>
        weekday nw \<notin> set (prohibited_days svc) \<and>
        (\<exists>st en. fromiso (contact_hours_start svc) = Some st \<and>
                 fromiso (contact_hours_end svc) = Some en \<and>
                 ((\<exists>a. st = AwareTime a) \<or>
                  (\<exists>s a. st = NaiveTime s \<and> time_le s (tod nw) \<and> en = AwareTime a))))
   \<and> (\<forall>err. check_contact_time svc fromiso nw = Inl err \<longrightarrow> err = TypeError)"
  by (auto simp: check_contact_time_def ComplianceCheckSev_def ComplianceCheck_def
           split: option.splits parsed_time.splits if_splits)

theorem contact_window_closed_interval_witness:
  "check_contact_time default_compliance_service sample_fromiso (at_time 2025 11 10 22 30)
     = Inr (ComplianceCheckSev ''contact_time'' False
              ''Contact only allowed between 08:00 and 21:00'' ''warning'') \<and>
   (\<exists>c. check_contact_time (default_compliance_service\<lparr>contact_hours_start := ''8am''\<rparr>)
             sample_fromiso (at_time 2025 11 10 22 30) = Inr c \<and> passed c) \<and>
   (\<exists>err. check_contact_time (default_compliance_service\<lparr>contact_hours_start := ''08:00+01:00''\<rparr>)
             sample_fromiso (at_time 2025 11 10 22 30) = Inl err)"
proof -
  let ?t = "at_time 2025 11 10 22 30"
  let ?bad = "default_compliance_service\<lparr>contact_hours_start := ''8am''\<rparr>"
  let ?aware = "default_compliance_service\<lparr>contact_hours_start := ''08:00+01:00''\<rparr>"
  have s: "sample_fromiso (contact_hours_start default_compliance_service)
             = Some (NaiveTime \<lparr>hour = 8, minute = 0, second = 0, microsecond = 0\<rparr>)"
    and e: "sample_fromiso (contact_hours_end default_compliance_service)
             = Some (NaiveTime \<lparr>hour = 21, minute = 0, second = 0, microsecond = 0\<rparr>)"
    by (simp_all add: sample_fromiso_def default_compliance_service_def)
  have out: "\<not> time_le (tod ?t) \<lparr>hour = 21, minute = 0, second = 0, microsecond = 0\<rparr>"
    by (simp add: time_le_def at_time_def)
  have bad: "sample_fromiso (contact_hours_start ?bad) = None"
    by (simp add: sample_fromiso_def)
  have wd: "weekday ?t \<notin> set (prohibited_days ?bad)"
    by (simp add: weekday_2025_11_10 default_compliance_service_def)
  have aw: "sample_fromiso (contact_hours_start ?aware)
              = Some (AwareTime \<lparr>hour = 8, minute = 0, second = 0, microsecond = 0\<rparr>)"
    and ae: "sample_fromiso (contact_hours_end ?aware)
              = Some (NaiveTime \<lparr>hour = 21, minute = 0, second = 0, microsecond = 0\<rparr>)"
    and wd': "weekday ?t \<notin> set (prohibited_days ?aware)"
    by (simp_all add: sample_fromiso_def weekday_2025_11_10 default_compliance_service_def)
  from contact_window_closed_interval [of default_compliance_service sample_fromiso ?t] s e out
  have "\<exists>c. check_contact_time default_compliance_service sample_fromiso ?t = Inr c \<and> \<not> passed c"
    by blast
  then have blocked: "\<exists>c. check_contact_time default_compliance_service sample_fromiso ?t = Inr c"
    by blast
  have val: "check_contact_time default_compliance_service sample_fromiso ?t
     = Inr (ComplianceCheckSev ''contact_time'' False
              ''Contact only allowed between 08:00 and 21:00'' ''warning'')"
  proof -
    have td: "tod ?t = \<lparr>hour = 22, minute = 30, second = 0, microsecond = 0\<rparr>"
      by (simp add: at_time_def)
    show ?thesis
      using blocked
      by (simp add: check_contact_time_def weekday_2025_11_10 default_compliance_service_def
            sample_fromiso_def time_le_def td)
  qed
  from contact_window_closed_interval [of ?bad sample_fromiso ?t] bad wd
  have p: "\<exists>c. check_contact_time ?bad sample_fromiso ?t = Inr c \<and> passed c"
    by blast
  from contact_window_closed_interval [of ?aware sample_fromiso ?t] aw ae wd'
  have r: "\<exists>err. check_contact_time ?aware sample_fromiso ?t = Inl err"
    by blast
  from val p r show ?thesis by blast
qed

text \<open>
  C10.  In \<open>validate_payment_plan\<close>, for a settlement plan and a loan balance that is
  zero or negative, the ratio is 0 without any division, whatever the amount is (also one
  that is not a number), and the only check produced is a passed
  \<open>settlement_percentage\<close>; the configured maximum is taken to be non-negative, as the
  default 0.70 is.
\<close>

theorem nonpositive_balance_passes_settlement_check:
  assumes "loan_balance \<le> 0" and "plan_data ''type'' = Some (PStr ''settlement'')"
    and "0 \<le> max_settlement_percentage svc"
  shows "settlement_percentage_of (dict_get plan_data ''amount'' (PInt 0)) loan_balance = Inr 0 \<and>
         validate_payment_plan svc fmt plan_data loan_balance =
           Inr [ComplianceCheck ''settlement_percentage'' True
                  (''Settlement percentage '' @ fmt_pct fmt 0 @ '' is within limits'')]"
  using assms
  by (simp add: settlement_percentage_of_def validate_payment_plan_def settlement_checks_def
        installment_checks_def)

theorem nonpositive_balance_passes_settlement_check_witness:
  "validate_payment_plan default_compliance_service sample_fmt
      (map_of [(''type'', PStr ''settlement''), (''amount'', PInt 1000000)]) 0 =
     Inr [ComplianceCheck ''settlement_percentage'' True
            ''Settlement percentage <percent> is within limits'']"
proof -
  have a: "(0::rat) \<le> 0" by simp
  have b: "map_of [(''type'', PStr ''settlement''), (''amount'', PInt 1000000)] ''type''
             = Some (PStr ''settlement'')"
    by simp
  have c: "0 \<le> max_settlement_percentage default_compliance_service"
    by (simp add: default_compliance_service_def)
  show ?thesis
    using nonpositive_balance_passes_settlement_check
            [of 0 "map_of [(''type'', PStr ''settlement''), (''amount'', PInt 1000000)]"
                default_compliance_service sample_fmt] a b c
    by (simp add: sample_fmt_def)
qed

subsection \<open>Payment plans\<close>

text \<open>
  C9.  The claim: the installment count times the per-installment amount approximates the
  plan's recorded total.  \<open>_create_payment_plan\<close> stores the proposal's amount both as
  the total and as the installment amount.  For the plan of 6 installments of 200 the row
  records a total of 200, while 6 installments of 200 come to 1200.
\<close>

theorem plan_total_is_installment_amount:
  "new_payment_plan (at_time 2025 11 3 10 0) sample_loan sample_conversation installment_200_x_6 1
     = Inr plan_row_200_x_6 \<and>
   total_amount plan_row_200_x_6 = 200 \<and>
   of_int (number_of_installments plan_row_200_x_6) * installment_amount plan_row_200_x_6 = 1200"
  by (simp add: new_payment_plan_def installment_200_x_6_def plan_row_200_x_6_def truthy_str_def
        truthy_int_def fromiso_2025_11_10 plan_type_map_def sample_loan_def sample_conversation_def)

text \<open>
  C5, as stated, fails for the plans that are not installment plans: the schedule rows are
  created only for an installment plan with a non-zero count.  The settlement of 1400 is
  built with no schedule row at all, while its plan row records one installment.
\<close>

theorem non_installment_counterexample:
  "plan_type settlement_1400 = SETTLEMENT \<and>
   create_payment_plan (at_time 2025 11 3 10 0) sample_loan sample_conversation settlement_1400
     empty_db = Inr (1, empty_db\<lparr>payment_plans := [settlement_row_1400]\<rparr>) \<and>
   scheduled_payments (empty_db\<lparr>payment_plans := [settlement_row_1400]\<rparr>) = [] \<and>
   number_of_installments settlement_row_1400 = 1"
  by (simp add: create_payment_plan_def new_payment_plan_def settlement_1400_def
        settlement_row_1400_def truthy_str_def truthy_int_def fromiso_2025_11_05 plan_type_map_def
        sample_loan_def sample_conversation_def empty_db_def fresh_id_def)

text \<open>
  C5, amended.  For every plan that is built, with the clock at a valid date, the plan
  row records the proposal's frequency (monthly when none is given), its first due date
  (seven days after the clock when none is given) and its installment count (1 when none
  is given or it is zero).  An installment plan with declared count \<open>n\<close> gets exactly \<open>n\<close>
  schedule rows (none when \<open>n\<close> is absent or not positive), numbered from 1, each carrying
  the proposal's amount; the first row is due on the first due date and each following row
  is due one step of the proposal's frequency after the one before (weekly 7 days,
  bi-weekly 14 days, otherwise the same day of the next month with the year rolling over
  after December).  A plan of any other kind gets no schedule row.
\<close>

theorem built_plan_schedule:
  assumes "create_payment_plan utc_now loan_row conv sp s = Inr (pid, s')"
    and "valid_date utc_now"
  shows "\<exists>pp rows.
           payment_plans s' = payment_plans s @ [pp] \<and> pp_id pp = pid \<and>
           pp_plan_type pp = plan_type_map (plan_type sp) \<and>
           payment_frequency pp
             = (if truthy_str (frequency sp) then the (frequency sp) else ''monthly'') \<and>
           number_of_installments pp
             = (if truthy_int (installments sp) then the (installments sp) else 1) \<and>
           (if truthy_str (first_due_date sp)
            then fromisoformat (the (first_due_date sp)) = Inr (first_payment_date pp)
            else add_days 7 utc_now = Inr (first_payment_date pp) \<and>
                 toordinal (first_payment_date pp) = toordinal utc_now + 7 \<and>
                 tod (first_payment_date pp) = tod utc_now) \<and>
           scheduled_payments s' = scheduled_payments s @ rows \<and>
           length rows = (if plan_type sp = INSTALLMENT
                          then (case installments sp of None \<Rightarrow> 0 | Some n \<Rightarrow> nat n) else 0) \<and>
           (\<forall>r \<in> set rows. sp_amount r = amount sp \<and> payment_plan_id r = pid \<and>
                            sp_status r = ''pending'') \<and>
           (\<forall>j < length rows. installment_number (rows ! j) = int j + 1) \<and>
           (rows \<noteq> [] \<longrightarrow> due_date (hd rows) = first_payment_date pp) \<and>
           successively
             (steps_by_frequency (if truthy_str (frequency sp) then the (frequency sp) else ''monthly''))
             (map due_date rows)"
proof -
  from assms(1) obtain pp where
    pp: "new_payment_plan utc_now loan_row conv sp (fresh_id (map pp_id (payment_plans s))) = Inr pp"
    by (auto simp: create_payment_plan_def split: sum.splits)
  note f = new_payment_plan_fields [OF pp assms(2)]
  show ?thesis
  proof (cases "plan_type sp = INSTALLMENT \<and> truthy_int (installments sp)")
    case False
    with assms(1) pp have s': "s' = s\<lparr>payment_plans := payment_plans s @ [pp]\<rparr>" and "pid = pp_id pp"
      by (auto simp: create_payment_plan_def Let_def)
    moreover from False have "(if plan_type sp = INSTALLMENT
        then (case installments sp of None \<Rightarrow> 0 | Some n \<Rightarrow> nat n) else 0) = 0"
      by (auto simp: truthy_int_def split: option.splits)
    ultimately show ?thesis
      using f by (intro exI [of _ pp] exI [of _ "[]"]) simp
  next
    case True
    then obtain n where n: "installments sp = Some n" "n \<noteq> 0"
      by (auto simp: truthy_int_def split: option.splits)
    from True assms(1) pp obtain rows where
      rows: "create_scheduled_payments pp = Inr rows"
      and s': "s' = s\<lparr>payment_plans := payment_plans s @ [pp],
                     scheduled_payments := scheduled_payments s @ rows\<rparr>"
      and pid: "pid = pp_id pp"
      by (auto simp: create_payment_plan_def Let_def split: sum.splits)
    from f True n have cnt: "number_of_installments pp = n" by simp
    from rows cnt have loop:
      "scheduled_payments_loop pp (nat n) 0 (first_payment_date pp) [] = Inr rows"
      by (simp add: create_scheduled_payments_def)
    from f have fr: "payment_frequency pp
        = (if truthy_str (frequency sp) then the (frequency sp) else ''monthly'')" by blast
    from scheduled_payments_loop_rows [OF loop] f obtain new where
      r: "rows = [] @ new" "length new = nat n"
      "\<forall>r \<in> set new. sp_amount r = installment_amount pp \<and> payment_plan_id r = pp_id pp \<and>
                      sp_status r = ''pending''"
      "\<forall>j < nat n. installment_number (new ! j) = 0 + 1 + int j"
      "new \<noteq> [] \<longrightarrow> due_date (hd new) = first_payment_date pp"
      and sc: "successively (steps_by_frequency (payment_frequency pp)) (map due_date new)"
      by blast
    from sc have "successively
        (steps_by_frequency (if truthy_str (frequency sp) then the (frequency sp) else ''monthly''))
        (map due_date new)"
      by (simp only: fr)
    with r f True n s' pid show ?thesis
      by (intro exI [of _ pp] exI [of _ rows]) simp
  qed
qed

text \<open>The example of the specification: 200 in 6 monthly installments from 2025-11-10 is
  built with the six due dates 2025-11-10, 2025-12-10, 2026-01-10, 2026-02-10, 2026-03-10
  and 2026-04-10.\<close>

theorem built_plan_schedule_witness:
  "create_payment_plan (at_time 2025 11 3 10 0) sample_loan sample_conversation installment_200_x_6
     empty_db = Inr (1, empty_db\<lparr>payment_plans := [plan_row_200_x_6],
                                 scheduled_payments := schedule_200_x_6\<rparr>) \<and>
   map due_date schedule_200_x_6 =
     [midnight 2025 11 10, midnight 2025 12 10, midnight 2026 1 10, midnight 2026 2 10,
      midnight 2026 3 10, midnight 2026 4 10] \<and>
   map sp_amount schedule_200_x_6 = [200, 200, 200, 200, 200, 200] \<and>
   successively (steps_by_frequency ''monthly'') (map due_date schedule_200_x_6)"
proof -
  have v: "valid_date (at_time 2025 11 3 10 0)"
    by (simp add: at_time_def valid_date_def days_in_month_def)
  from built_plan_schedule [OF create_plan_200_x_6 v] obtain pp rows where
    a: "payment_plans (empty_db\<lparr>payment_plans := [plan_row_200_x_6],
                                scheduled_payments := schedule_200_x_6\<rparr>)
          = payment_plans empty_db @ [pp]"
    and b: "scheduled_payments (empty_db\<lparr>payment_plans := [plan_row_200_x_6],
                                        scheduled_payments := schedule_200_x_6\<rparr>)
          = scheduled_payments empty_db @ rows"
    and c: "successively
              (steps_by_frequency (if truthy_str (frequency installment_200_x_6)
                                   then the (frequency installment_200_x_6) else ''monthly''))
              (map due_date rows)"
    by (elim exE conjE) (rule that)
  have "(if truthy_str (frequency installment_200_x_6)
         then the (frequency installment_200_x_6) else ''monthly'') = ''monthly''"
    by (simp add: installment_200_x_6_def truthy_str_def)
  moreover from b have "rows = schedule_200_x_6" by (simp add: empty_db_def)
  ultimately have "successively (steps_by_frequency ''monthly'') (map due_date schedule_200_x_6)"
    using c by simp
  moreover have "map due_date schedule_200_x_6 =
     [midnight 2025 11 10, midnight 2025 12 10, midnight 2026 1 10, midnight 2026 2 10,
      midnight 2026 3 10, midnight 2026 4 10]"
    "map sp_amount schedule_200_x_6 = [200, 200, 200, 200, 200, 200]"
    by (simp_all add: schedule_200_x_6_def pending_200_def)
  ultimately show ?thesis using create_plan_200_x_6 by blast
qed

subsection \<open>Identity verification\<close>

text \<open>
  C2.  On a conversation whose counter is not negative, after
  \<open>max_verification_attempts\<close> (3) requests in a row that each returned an unverified
  result, the next request returns the locked result (not verified, no attempts
  remaining) whatever facts it supplies, and commits the conversation in state Escalated;
  and every later request returns the locked result too, so none returns Verified.
\<close>

theorem locked_after_three_failures:
  assumes "find_index (\<lambda>c. conversation_id c = cid) (conversations d) = Some i"
    and "0 \<le> verification_attempts (conversations d ! i)"
    and "length calls = nat max_verification_attempts"
    and "\<forall>r \<in> set (fst (verify_all float_of cid calls d)). \<exists>v. r = Inr v \<and> \<not> verified v"
  shows "fst (verify_identity t float_of cid data (snd (verify_all float_of cid calls d)))
           = Inr locked_result \<and>
         \<not> verified locked_result \<and> attempts_remaining locked_result = 0 \<and>
         find_index (\<lambda>c. conversation_id c = cid)
           (conversations (committed (snd (verify_identity t float_of cid data
              (snd (verify_all float_of cid calls d)))))) = Some i \<and>
         state (conversations (committed (snd (verify_identity t float_of cid data
              (snd (verify_all float_of cid calls d))))) ! i) = ESCALATED \<and>
         (\<forall>r \<in> set (fst (verify_all float_of cid later (snd (verify_all float_of cid calls d)))).
            r = Inr locked_result)"
proof -
  let ?d' = "snd (verify_all float_of cid calls d)"
  note c = verify_all_counter [OF assms(1), of float_of calls]
  from assms(4) have "\<forall>r \<in> set (fst (verify_all float_of cid calls d)). \<exists>v. r = Inr v" by blast
  with c have "min max_verification_attempts
              (verification_attempts (conversations d ! i) + int (length calls))
            \<le> verification_attempts (conversations ?d' ! i)" by blast
  with assms(2,3) have full: "max_verification_attempts \<le> verification_attempts (conversations ?d' ! i)"
    by (simp add: max_verification_attempts_def)
  from c have fi': "find_index (\<lambda>c. conversation_id c = cid) (conversations ?d') = Some i"
    by blast
  note l = verify_identity_locked [OF fi' full, of t float_of data]
  from find_index_Some [OF fi'] have len: "i < length (conversations ?d')" by simp
  have "state (conversations (committed (snd (verify_identity t float_of cid data ?d'))) ! i)
          = ESCALATED"
    using len by (simp add: l commit_def conversations_put escalate_conversation_def)
  moreover have "find_index (\<lambda>c. conversation_id c = cid)
           (conversations (committed (snd (verify_identity t float_of cid data ?d')))) = Some i"
    by (rule verify_identity_step(1) [OF fi'])
  moreover have "\<forall>r \<in> set (fst (verify_all float_of cid later ?d')). r = Inr locked_result"
    by (rule verify_all_locked [OF fi' full])
  ultimately show ?thesis by (simp add: l locked_result_def)
qed

theorem locked_after_three_failures_witness:
  "fst (verify_identity (at_time 2025 11 3 10 4) sample_float_of ''s1'' right_facts
          (snd (verify_all sample_float_of ''s1'' three_wrong_calls (sample_db_at 0))))
     = Inr locked_result \<and>
   state (conversations (committed (snd (verify_identity (at_time 2025 11 3 10 4) sample_float_of
          ''s1'' right_facts
          (snd (verify_all sample_float_of ''s1'' three_wrong_calls (sample_db_at 0)))))) ! 0)
     = ESCALATED"
proof -
  have a: "0 \<le> verification_attempts (conversations (sample_db_at 0) ! 0)"
    by (simp add: sample_attempts)
  have b: "length three_wrong_calls = nat max_verification_attempts"
    by (simp add: three_wrong_calls_def max_verification_attempts_def)
  have c: "\<forall>r \<in> set (fst (verify_all sample_float_of ''s1'' three_wrong_calls (sample_db_at 0))).
             \<exists>v. r = Inr v \<and> \<not> verified v"
    by (simp add: three_wrong_calls_eval failed_result_def)
  from locked_after_three_failures [OF sample_index a b c] show ?thesis by blast
qed

text \<open>
  C8.  A request on a conversation whose counter is at most the maximum leaves it at most
  the maximum, in the committed database and in the session (also when the request
  raises); hence so does every run of requests.
\<close>

theorem attempts_never_exceed_maximum:
  assumes "find_index (\<lambda>c. conversation_id c = cid) (conversations d) = Some i"
    and "verification_attempts (conversations d ! i) \<le> max_verification_attempts"
  shows "verification_attempts
           (conversations (committed (snd (verify_identity t float_of cid data d))) ! i)
           \<le> max_verification_attempts \<and>
         verification_attempts
           (conversations (session (snd (verify_identity t float_of cid data d))) ! i)
           \<le> max_verification_attempts \<and>
         find_index (\<lambda>c. conversation_id c = cid)
           (conversations (snd (verify_all float_of cid calls d))) = Some i \<and>
         verification_attempts (conversations (snd (verify_all float_of cid calls d)) ! i)
           \<le> max_verification_attempts"
  using verify_identity_step(3) [OF assms(1) assms(2), of t float_of data]
    verify_all_counter [OF assms(1), of float_of calls] assms(2)
  by blast

theorem attempts_never_exceed_maximum_witness:
  "verification_attempts (conversations (sample_db_at 2) ! 0) \<le> max_verification_attempts \<and>
   verification_attempts
     (conversations (snd (verify_all sample_float_of ''s1'' three_wrong_calls (sample_db_at 2))) ! 0)
     \<le> max_verification_attempts"
proof -
  have a: "verification_attempts (conversations (sample_db_at 2) ! 0) \<le> max_verification_attempts"
    by (simp add: sample_attempts max_verification_attempts_def)
  from attempts_never_exceed_maximum [OF sample_index a] a show ?thesis by blast
qed

subsection \<open>Blocked turns\<close>

text \<open>
  C4, as stated, fails on the last-activity timestamp.  The conversation is fetched, and
  its \<open>last_activity\<close> set to the current time, before the gate runs.  For a borrower who
  has opted out, the turn on the stored session \<open>s1\<close> returns the blocked response and
  leaves the committed database as it was, but the session's conversation now carries the
  time of the turn instead of the stored one.
\<close>

theorem blocked_turn_counterexample:
  "process_message sample_world ''hello'' 1 ''s1'' ''chat'' opted_out_db =
     (Inr (create_compliance_blocked_response ''s1'' (Some ''Borrower has opted out of communications'')),
      \<lparr>committed = opted_out_db,
       session = opted_out_db\<lparr>conversations := [touched_conversation]\<rparr>\<rparr>) \<and>
   last_activity (conversations opted_out_db ! 0) = at_time 2025 11 3 10 0 \<and>
   last_activity (conversations (opted_out_db\<lparr>conversations := [touched_conversation]\<rparr>) ! 0)
     = at_time 2025 11 10 12 0 \<and>
   at_time 2025 11 10 12 0 \<noteq> at_time 2025 11 3 10 0"
  by (simp add: opted_out_turn)
    (simp add: opted_out_db_def sample_conversation_def touched_conversation_def at_time_def)

text \<open>
  C4, amended.  In every turn in which the contact-compliance gate returns Blocked, the
  turn returns the blocked response carrying the gate's reason and commits nothing: the
  committed database is the one the turn started from.  The session it leaves has the
  same messages, loans, borrowers, plans and schedule rows, so the inbound message is not
  recorded; an existing conversation differs only in its last-activity timestamp, which is
  refreshed, and for an unknown session a new conversation in state Initiated has been
  added to the session, uncommitted.
\<close>

theorem blocked_turn_commits_nothing:
  assumes "get_or_create_conversation w loan_id session_id chan d = Inr (i, s)"
    and "state (conversations s ! i) \<noteq> OPTED_OUT"
    and "find (\<lambda>l. l_id l = loan_id) (loans s) = Some loan_row"
    and "find (\<lambda>b. b_id b = l_borrower_id loan_row) (borrowers s) = Some borrower_row"
    and "check_contact_compliance (w_compliance w) (w_fmt w) (w_fromiso w) (now (w_clock w))
           borrower_row (conversations s) = Inr g"
    and "\<not> allowed g"
  shows "process_message w user_message loan_id session_id chan d =
           (Inr (create_compliance_blocked_response (conversation_id (conversations s ! i)) (reason g)),
            \<lparr>committed = d, session = s\<rparr>) \<and>
         messages s = messages d \<and> loans s = loans d \<and> borrowers s = borrowers d \<and>
         payment_plans s = payment_plans d \<and> scheduled_payments s = scheduled_payments d \<and>
         ((find_index (active_conversation loan_id session_id) (conversations d) = Some i \<and>
           conversations s =
             (conversations d)[i := (conversations d ! i)\<lparr>last_activity := utcnow (w_clock w)\<rparr>]) \<or>
          (find_index (active_conversation loan_id session_id) (conversations d) = None \<and>
           i = length (conversations d) \<and>
           butlast (conversations s) = conversations d \<and>
           length (conversations s) = Suc (length (conversations d)) \<and>
           state (conversations s ! i) = INITIATED \<and>
           verification_attempts (conversations s ! i) = 0 \<and>
           \<not> identity_verified (conversations s ! i)))"
proof -
  have "process_message w user_message loan_id session_id chan d =
           (Inr (create_compliance_blocked_response (conversation_id (conversations s ! i)) (reason g)),
            \<lparr>committed = d, session = s\<rparr>)"
    using assms by (simp add: process_message_def Let_def)
  with get_or_create_frame [OF assms(1)] show ?thesis by blast
qed

theorem blocked_turn_commits_nothing_witness:
  "process_message sample_world ''hello'' 1 ''s2'' ''chat'' opted_out_db =
     (Inr (create_compliance_blocked_response ''s2'' (Some ''Borrower has opted out of communications'')),
      \<lparr>committed = opted_out_db,
       session = opted_out_db\<lparr>conversations := [sample_conversation, new_conversation_s2]\<rparr>\<rparr>) \<and>
   messages (opted_out_db\<lparr>conversations := [sample_conversation, new_conversation_s2]\<rparr>)
     = messages opted_out_db"
proof -
  let ?s = "opted_out_db\<lparr>conversations := [sample_conversation, new_conversation_s2]\<rparr>"
  have h1: "get_or_create_conversation sample_world 1 ''s2'' ''chat'' opted_out_db = Inr (1, ?s)"
    by (simp add: get_or_create_conversation_def active_conversation_def opted_out_db_def
          sample_conversation_def sample_world_def sample_loan_def new_conversation_s2_def
          fresh_id_def Let_def)
  have h2: "state (conversations ?s ! 1) \<noteq> OPTED_OUT"
    by (simp add: new_conversation_s2_def)
  have h3: "find (\<lambda>l. l_id l = 1) (loans ?s) = Some sample_loan"
    by (simp add: opted_out_db_def sample_loan_def)
  have h4: "find (\<lambda>b. b_id b = l_borrower_id sample_loan) (borrowers ?s) = Some opted_out_borrower"
    by (simp add: opted_out_db_def sample_loan_def opted_out_borrower_def)
  have h5: "check_contact_compliance (w_compliance sample_world) (w_fmt sample_world)
              (w_fromiso sample_world) (now (w_clock sample_world)) opted_out_borrower
              (conversations ?s) = Inr opted_out_block"
    by (simp add: check_contact_compliance_def check_opt_out_status_def opted_out_borrower_def
          ComplianceCheckSev_def opted_out_block_def)
  have h6: "\<not> allowed opted_out_block" by (simp add: opted_out_block_def)
  have c: "conversation_id (conversations ?s ! 1) = ''s2''" "reason opted_out_block
             = Some ''Borrower has opted out of communications''"
    by (simp_all add: new_conversation_s2_def opted_out_block_def)
  from blocked_turn_commits_nothing [OF h1 h2 h3 h4 h5 h6, of "''hello''"] c
  show ?thesis by simp
qed

end
